theory Spec2Isabelle
  imports Complex_Main "HOL-Library.Word"
begin

section \<open>Numbers of the program\<close>

text \<open>
  The C++ type \<open>float\<close> is IEEE binary32. A value is a finite number, one of the two
  infinities or NaN. An operation on finite values gives the exact real result rounded to
  the nearest binary32 number, a tie going to the even significand: 24 bits of
  significand, exponents from -126 to 127 with gradual underflow below, and an infinity
  when the rounded result is beyond the largest finite number. The two signed zeros are
  not told apart; zero as a divisor is positive zero, which is what the program has, since
  every divisor in it is converted from an unsigned integer.
\<close>

datatype float = Finite real | PInf | NInf | NaN

type_synonym uint32 = "32 word"
type_synonym uint64 = "64 word"

text \<open>The nearest integer, a tie going to the even one.\<close>

definition round_half_even :: "real \<Rightarrow> int" where
  "round_half_even y =
     (let f = \<lfloor>y\<rfloor>; r = y - of_int f
      in if r < 1 / 2 then f else if 1 / 2 < r then f + 1 else if even f then f else f + 1)"

text \<open>
  The power of two at or below a magnitude: for a magnitude of at least 1 by halving, at
  most 128 times, and for a smaller one by doubling, at most 126 times, which stops at the
  smallest normal exponent.
\<close>

fun binade_up :: "nat \<Rightarrow> real \<Rightarrow> real" where
  "binade_up k x = (if k = 0 \<or> x < 2 then 1 else 2 * binade_up (k - 1) (x / 2))"

fun binade_down :: "nat \<Rightarrow> real \<Rightarrow> real" where
  "binade_down k x = (if k = 0 \<or> 1 \<le> x then 1 else binade_down (k - 1) (2 * x) / 2)"

declare binade_up.simps [simp del] binade_down.simps [simp del]

definition binade :: "real \<Rightarrow> real" where
  "binade x = (if 1 \<le> \<bar>x\<bar> then binade_up 128 \<bar>x\<bar> else binade_down 126 \<bar>x\<bar>)"

text \<open>The distance between neighbouring binary32 numbers at a magnitude.\<close>

definition quantum :: "real \<Rightarrow> real" where
  "quantum x = binade x / 2 ^ 23"

definition nearest :: "real \<Rightarrow> real" where
  "nearest x = quantum x * of_int (round_half_even (x / quantum x))"

definition round32 :: "real \<Rightarrow> float" where
  "round32 x =
     (let y = nearest x
      in if 2 ^ 128 \<le> \<bar>y\<bar> then (if 0 < y then PInf else NInf) else Finite y)"

text \<open>A real number that is a binary32 number: rounding leaves it as it is.\<close>

definition representable :: "real \<Rightarrow> bool" where
  "representable x = (round32 x = Finite x)"

fun fneg :: "float \<Rightarrow> float" where
  "fneg (Finite x) = Finite (- x)"
| "fneg PInf = NInf"
| "fneg NInf = PInf"
| "fneg NaN = NaN"

fun fadd :: "float \<Rightarrow> float \<Rightarrow> float" where
  "fadd (Finite x) (Finite y) = round32 (x + y)"
| "fadd NaN b = NaN"
| "fadd a NaN = NaN"
| "fadd PInf NInf = NaN"
| "fadd NInf PInf = NaN"
| "fadd PInf b = PInf"
| "fadd NInf b = NInf"
| "fadd a PInf = PInf"
| "fadd a NInf = NInf"

definition fsub :: "float \<Rightarrow> float \<Rightarrow> float" where
  "fsub a b = fadd a (fneg b)"

text \<open>The sign of a product or quotient with an infinity: \<open>True\<close> is positive.\<close>

definition signed_inf :: "bool \<Rightarrow> float" where
  "signed_inf pos = (if pos then PInf else NInf)"

fun fmul :: "float \<Rightarrow> float \<Rightarrow> float" where
  "fmul (Finite x) (Finite y) = round32 (x * y)"
| "fmul NaN b = NaN"
| "fmul a NaN = NaN"
| "fmul (Finite x) PInf = (if x = 0 then NaN else signed_inf (0 < x))"
| "fmul (Finite x) NInf = (if x = 0 then NaN else signed_inf (x < 0))"
| "fmul PInf (Finite y) = (if y = 0 then NaN else signed_inf (0 < y))"
| "fmul NInf (Finite y) = (if y = 0 then NaN else signed_inf (y < 0))"
| "fmul PInf PInf = PInf"
| "fmul PInf NInf = NInf"
| "fmul NInf PInf = NInf"
| "fmul NInf NInf = PInf"

fun fdiv :: "float \<Rightarrow> float \<Rightarrow> float" where
  "fdiv (Finite x) (Finite y) =
     (if y = 0 then (if x = 0 then NaN else signed_inf (0 < x)) else round32 (x / y))"
| "fdiv NaN b = NaN"
| "fdiv a NaN = NaN"
| "fdiv (Finite x) PInf = Finite 0"
| "fdiv (Finite x) NInf = Finite 0"
| "fdiv PInf (Finite y) = signed_inf (0 \<le> y)"
| "fdiv NInf (Finite y) = signed_inf (y < 0)"
| "fdiv PInf b = NaN"
| "fdiv NInf b = NaN"

text \<open>The comparison \<open>a < b\<close> of two floats: false as soon as one side is NaN.\<close>

fun fless :: "float \<Rightarrow> float \<Rightarrow> bool" where
  "fless (Finite x) (Finite y) = (x < y)"
| "fless NaN b = False"
| "fless a NaN = False"
| "fless NInf NInf = False"
| "fless NInf b = True"
| "fless a PInf = (a \<noteq> PInf)"
| "fless PInf b = False"
| "fless (Finite x) NInf = False"

text \<open>
  \<open>static_cast<float>\<close> of an unsigned integer (also the implicit conversion): the
  nearest binary32 number, which is the integer itself up to \<open>2 ^ 24\<close>.
\<close>

definition float_of_uint32 :: "uint32 \<Rightarrow> float" where
  "float_of_uint32 w = round32 (real (unat w))"

definition float_of_nat :: "nat \<Rightarrow> float" where
  "float_of_nat i = round32 (real i)"

section \<open>Data of the sensor\<close>

datatype error =
    CheckFailed string
  | NullDereference
  | UndefinedConversion

text \<open>
  Modelled from the spec: \<open>ULidarDescription\<close> is declared in
  \<open>Settings/LidarDescription.h\<close>, which is not among the sources. Its fields are the
  ones \<open>Lidar.cpp\<close> reads, with the parameters the spec lists for \<open>LidarConfig\<close>.
\<close>

record ULidarDescription =
  Channels :: uint32
  Range :: float
  PointsPerSecond :: uint32
  RotationFrequency :: float
  UpperFovLimit :: float
  LowerFovLimit :: float
  ShowDebugPoints :: bool

text \<open>
  Modelled from the spec: \<open>ECityObjectLabel\<close> is declared in \<open>Game/Tagger.h\<close>, which
  is not among the sources. \<open>ShootLaser\<close> tells \<open>None\<close> from every other label.
\<close>

datatype ECityObjectLabel = NoneLabel | Label string

record FVector =
  X :: float
  Y :: float
  Z :: float

record FVector4 =
  X4 :: float
  Y4 :: float
  Z4 :: float
  W4 :: ECityObjectLabel

record FRotator =
  Pitch :: float
  Yaw :: float
  Roll :: float

text \<open>
  Modelled from the spec: \<open>FLidarMeasurement\<close> is declared in
  \<open>Sensor/LidarMeasurement.h\<close>, which is not among the sources. It holds the scan state
  (horizontal angle, frame number) and the point buffer of the tick. A new measurement has
  angle zero, frame zero and no point; \<open>Reset\<close> empties the buffer and sizes it for the
  tick (the size is a capacity, it is not part of the value); \<open>WritePoint\<close> appends one
  point; \<open>GetView\<close> is the measurement as the sink reads it.
\<close>

record FLidarMeasurement =
  SensorId :: uint32
  NumChannels :: uint32
  HorizontalAngle :: float
  FrameNumber :: uint64
  Points :: "FVector4 list"

definition NewLidarMeasurement :: "uint32 \<Rightarrow> uint32 \<Rightarrow> FLidarMeasurement" where
  "NewLidarMeasurement sid n =
     \<lparr>SensorId = sid, NumChannels = n, HorizontalAngle = Finite 0, FrameNumber = 0,
      Points = []\<rparr>"

definition Reset :: "uint32 \<Rightarrow> FLidarMeasurement \<Rightarrow> FLidarMeasurement" where
  "Reset TotalPointCount m = m\<lparr>Points := []\<rparr>"

definition WritePoint :: "nat \<Rightarrow> FVector4 \<Rightarrow> FLidarMeasurement \<Rightarrow> FLidarMeasurement" where
  "WritePoint Channel Point m = m\<lparr>Points := Points m @ [Point]\<rparr>"

definition GetView :: "FLidarMeasurement \<Rightarrow> FLidarMeasurement" where
  "GetView m = m"

text \<open>
  The result of a line trace: whether something blocks the ray, where, and the struck
  component and actor.
\<close>

record FHitResult =
  bBlockingHit :: bool
  ImpactPoint :: FVector
  Component :: nat
  Actor :: nat

text \<open>
  What the engine supplies to the sensor during a call: the world's line trace, the pose
  of the actor, the frame counter, the tagger, the rotation library, the actor's name and
  what the base class \<open>ASensor\<close> does to the sensor id on \<open>Set\<close>. None of it is part
  of the sources; every function of the sensor takes it as a parameter.
\<close>

record host =
  LineTraceSingleByChannel :: "FVector \<Rightarrow> FVector \<Rightarrow> FHitResult"
  GetActorLocation :: FVector
  GetActorRotation :: FRotator
  GFrameCounter :: uint64
  GetTagOfTaggedComponent :: "nat \<Rightarrow> ECityObjectLabel"
  GetTagsOfTaggedActor :: "nat \<Rightarrow> ECityObjectLabel list"
  ComposeRotators :: "FRotator \<Rightarrow> FRotator \<Rightarrow> FRotator"
  GetForwardVector :: "FRotator \<Rightarrow> FVector"
  RotateAngleAxis :: "FVector \<Rightarrow> float \<Rightarrow> FVector \<Rightarrow> FVector"
  GetName :: string
  SensorSet :: "ULidarDescription \<Rightarrow> uint32 \<Rightarrow> uint32"

text \<open>
  The sensor: the members of \<open>ALidar\<close> (\<open>Description\<close> is a pointer, \<open>None\<close> is
  \<open>nullptr\<close>), the id kept by \<open>ASensor\<close>, and what the sensor has done to the outside:
  the warnings logged, the rays traced, the debug points drawn and the views written to
  the sink, each in order.
\<close>

record ALidar =
  GetId :: uint32
  Description :: "ULidarDescription option"
  LaserAngles :: "float list"
  LidarMeasurement :: FLidarMeasurement
  Logged :: "string list"
  Traced :: "(FVector \<times> FVector) list"
  Drawn :: "FVector list"
  Written :: "FLidarMeasurement list"

section \<open>Building the angle table\<close>

text \<open>The loop of \<open>CreateLasers\<close>: one \<open>Emplace\<close> for each index, in order.\<close>

fun EmplaceAngles :: "float \<Rightarrow> float \<Rightarrow> nat list \<Rightarrow> float list \<Rightarrow> float list" where
  "EmplaceAngles Upper DeltaAngle [] angles = angles"
| "EmplaceAngles Upper DeltaAngle (i # rest) angles =
     EmplaceAngles Upper DeltaAngle rest
       (angles @ [fsub Upper (fmul (float_of_nat i) DeltaAngle)])"

text \<open>
  \<open>check\<close> stops the program when its condition is false; the model returns
  \<open>CheckFailed\<close>. The subtraction \<open>NumberOfLasers - 1\<close> is on \<open>uint32\<close>.
\<close>

definition CreateLasers :: "ALidar \<Rightarrow> error + ALidar" where
  "CreateLasers s =
     (case Description s of
        None \<Rightarrow> Inl (CheckFailed ''Description != nullptr'')
      | Some d \<Rightarrow>
          let NumberOfLasers = Channels d in
          if \<not> (0 < NumberOfLasers) then Inl (CheckFailed ''NumberOfLasers > 0u'')
          else
            let DeltaAngle =
                  fdiv (fsub (UpperFovLimit d) (LowerFovLimit d))
                       (float_of_uint32 (NumberOfLasers - 1))
            in Inr (s\<lparr>LaserAngles :=
                        EmplaceAngles (UpperFovLimit d) DeltaAngle
                          [0 ..< unat NumberOfLasers] []\<rparr>))"

definition Set :: "host \<Rightarrow> ULidarDescription \<Rightarrow> ALidar \<Rightarrow> error + ALidar" where
  "Set h LidarDescription s =
     (let s1 = s\<lparr>GetId := SensorSet h LidarDescription (GetId s)\<rparr>;
          s2 = s1\<lparr>Description := Some LidarDescription\<rparr>;
          s3 = s2\<lparr>LidarMeasurement :=
                    NewLidarMeasurement (GetId s2) (Channels LidarDescription)\<rparr>
      in CreateLasers s3)"

section \<open>The scan of one tick\<close>

text \<open>The conversion of a float to an integer drops the fraction.\<close>

definition truncate :: "real \<Rightarrow> int" where
  "truncate x = (if x < 0 then \<lceil>x\<rceil> else \<lfloor>x\<rfloor>)"

text \<open>
  The conversion of a float to \<open>uint32\<close> is defined when the truncated value fits; the
  behaviour of the program is undefined otherwise, also at an infinity and at NaN.
\<close>

fun uint32_of_float :: "float \<Rightarrow> error + uint32" where
  "uint32_of_float (Finite x) =
     (if 0 \<le> truncate x \<and> truncate x < 2 ^ 32 then Inr (word_of_int (truncate x))
      else Inl UndefinedConversion)"
| "uint32_of_float PInf = Inl UndefinedConversion"
| "uint32_of_float NInf = Inl UndefinedConversion"
| "uint32_of_float NaN = Inl UndefinedConversion"

text \<open>Floor and ceiling of a binary32 number are binary32 numbers: nothing is rounded.\<close>

fun FloorToFloat :: "float \<Rightarrow> float" where
  "FloorToFloat (Finite x) = Finite (of_int \<lfloor>x\<rfloor>)"
| "FloorToFloat a = a"

fun CeilToFloat :: "float \<Rightarrow> float" where
  "CeilToFloat (Finite x) = Finite (of_int \<lceil>x\<rceil>)"
| "CeilToFloat a = a"

text \<open>
  \<open>FMath::RoundHalfFromZero\<close> of the engine's mathematics library: the nearest integer,
  as a float, a tie going to the value further from zero.
\<close>

definition RoundHalfFromZero :: "float \<Rightarrow> float" where
  "RoundHalfFromZero F =
     (if fless F (Finite 0) then CeilToFloat (fsub F (Finite (1 / 2)))
      else FloorToFloat (fadd F (Finite (1 / 2))))"

text \<open>
  \<open>std::fmod\<close>: the remainder of the division truncated towards zero. The remainder of
  two binary32 numbers is a binary32 number, so nothing is rounded.
\<close>

fun fmod :: "float \<Rightarrow> float \<Rightarrow> float" where
  "fmod (Finite x) (Finite y) =
     (if y = 0 then NaN else Finite (x - y * of_int (truncate (x / y))))"
| "fmod NaN b = NaN"
| "fmod a NaN = NaN"
| "fmod PInf b = NaN"
| "fmod NInf b = NaN"
| "fmod (Finite x) PInf = Finite x"
| "fmod (Finite x) NInf = Finite x"

definition vscale :: "float \<Rightarrow> FVector \<Rightarrow> FVector" where
  "vscale k v = \<lparr>X = fmul k (X v), Y = fmul k (Y v), Z = fmul k (Z v)\<rparr>"

definition vadd :: "FVector \<Rightarrow> FVector \<Rightarrow> FVector" where
  "vadd u v = \<lparr>X = fadd (X u) (X v), Y = fadd (Y u) (Y v), Z = fadd (Z u) (Z v)\<rparr>"

definition vsub :: "FVector \<Rightarrow> FVector \<Rightarrow> FVector" where
  "vsub u v = \<lparr>X = fsub (X u) (X v), Y = fsub (Y u) (Y v), Z = fsub (Z u) (Z v)\<rparr>"

text \<open>The loop over the tags of the struck actor: the first tag that is not \<open>None\<close>.\<close>

fun FirstTagged :: "ECityObjectLabel list \<Rightarrow> ECityObjectLabel \<Rightarrow> ECityObjectLabel" where
  "FirstTagged [] tag = tag"
| "FirstTagged (t # tags) tag = (if t \<noteq> NoneLabel then t else FirstTagged tags tag)"

definition HitTag :: "host \<Rightarrow> FHitResult \<Rightarrow> ECityObjectLabel" where
  "HitTag h HitInfo =
     (let tag = GetTagOfTaggedComponent h (Component HitInfo)
      in if tag = NoneLabel
         then FirstTagged (GetTagsOfTaggedActor h (Actor HitInfo)) tag
         else tag)"

text \<open>
  \<open>ShootLaser\<close> returns the point when the ray hits (\<open>Some\<close>) and nothing when it misses,
  with the sensor after the trace. The fourth component of the point is the label itself
  (\<open>CastEnum\<close> gives its number). Reading \<open>LaserAngles\<close> out of range fails the range
  check of the array.
\<close>

definition ShootLaser ::
    "host \<Rightarrow> nat \<Rightarrow> float \<Rightarrow> ALidar \<Rightarrow> error + (FVector4 option \<times> ALidar)" where
  "ShootLaser h Channel Angle s =
     (if \<not> Channel < length (LaserAngles s) then Inl (CheckFailed ''Array index out of bounds'')
      else case Description s of
        None \<Rightarrow> Inl NullDereference
      | Some d \<Rightarrow>
          let VerticalAngle = LaserAngles s ! Channel;
              LidarBodyLoc = GetActorLocation h;
              LidarBodyRot = GetActorRotation h;
              LaserRot = \<lparr>Pitch = VerticalAngle, Yaw = Angle, Roll = Finite 0\<rparr>;
              ResultRot = ComposeRotators h LaserRot LidarBodyRot;
              EndTrace = vadd (vscale (Range d) (GetForwardVector h ResultRot)) LidarBodyLoc;
              HitInfo = LineTraceSingleByChannel h LidarBodyLoc EndTrace;
              s1 = s\<lparr>Traced := Traced s @ [(LidarBodyLoc, EndTrace)]\<rparr>
          in if bBlockingHit HitInfo then
               let s2 = (if ShowDebugPoints d
                         then s1\<lparr>Drawn := Drawn s1 @ [ImpactPoint HitInfo]\<rparr> else s1);
                   XYZ = RotateAngleAxis h (vsub LidarBodyLoc (ImpactPoint HitInfo))
                           (fadd (fneg (Yaw LidarBodyRot)) (Finite 90))
                           \<lparr>X = Finite 0, Y = Finite 0, Z = Finite 1\<rparr>;
                   tag = HitTag h HitInfo
               in Inr (Some \<lparr>X4 = X XYZ, Y4 = Y XYZ, Z4 = Z XYZ, W4 = tag\<rparr>, s2)
             else Inr (None, s1))"

text \<open>The body of the inner loop, for sample \<open>i\<close> of one channel.\<close>

definition ScanPoint ::
    "host \<Rightarrow> nat \<Rightarrow> float \<Rightarrow> float \<Rightarrow> nat \<Rightarrow> ALidar \<Rightarrow> error + ALidar" where
  "ScanPoint h Channel CurrentHorizontalAngle AngleDistanceOfLaserMeasure i s =
     (let Angle = fadd CurrentHorizontalAngle (fmul AngleDistanceOfLaserMeasure (float_of_nat i))
      in case ShootLaser h Channel Angle s of
           Inl e \<Rightarrow> Inl e
         | Inr (None, s') \<Rightarrow> Inr s'
         | Inr (Some Point, s') \<Rightarrow>
             Inr (s'\<lparr>LidarMeasurement := WritePoint Channel Point (LidarMeasurement s')\<rparr>))"

text \<open>
  The two loops. Their counters run below a \<open>uint32\<close> bound, so they never wrap and are
  natural numbers here; \<open>float_of_nat\<close> converts them as the program does.
\<close>

fun ScanLaser ::
    "host \<Rightarrow> nat \<Rightarrow> float \<Rightarrow> float \<Rightarrow> nat list \<Rightarrow> ALidar \<Rightarrow> error + ALidar" where
  "ScanLaser h Channel cur step [] s = Inr s"
| "ScanLaser h Channel cur step (i # rest) s =
     (case ScanPoint h Channel cur step i s of
        Inl e \<Rightarrow> Inl e
      | Inr s' \<Rightarrow> ScanLaser h Channel cur step rest s')"

fun ScanChannels ::
    "host \<Rightarrow> float \<Rightarrow> float \<Rightarrow> nat \<Rightarrow> nat list \<Rightarrow> ALidar \<Rightarrow> error + ALidar" where
  "ScanChannels h cur step n [] s = Inr s"
| "ScanChannels h cur step n (Channel # rest) s =
     (case ScanLaser h Channel cur step [0 ..< n] s of
        Inl e \<Rightarrow> Inl e
      | Inr s' \<Rightarrow> ScanChannels h cur step n rest s')"

text \<open>The budget of the tick: the first statement of \<open>ReadPoints\<close>.\<close>

definition PointsToScanWithOneLaser :: "ULidarDescription \<Rightarrow> float \<Rightarrow> error + uint32" where
  "PointsToScanWithOneLaser d DeltaTime =
     uint32_of_float
       (RoundHalfFromZero
          (fdiv (fmul (float_of_uint32 (PointsPerSecond d)) DeltaTime)
                (float_of_uint32 (Channels d))))"

definition NoPointsWarning :: "host \<Rightarrow> string" where
  "NoPointsWarning h =
     GetName h @ '': no points requested this frame, try increasing the number of points per second.''"

definition ReadPoints :: "host \<Rightarrow> float \<Rightarrow> ALidar \<Rightarrow> error + ALidar" where
  "ReadPoints h DeltaTime s =
     (case Description s of
        None \<Rightarrow> Inl NullDereference
      | Some d \<Rightarrow>
          (let ChannelCount = Channels d in
           (case PointsToScanWithOneLaser d DeltaTime of
              Inl e \<Rightarrow> Inl e
            | Inr n \<Rightarrow>
               (if n \<le> 0 then Inr (s\<lparr>Logged := Logged s @ [NoPointsWarning h]\<rparr>)
                else if unat ChannelCount \<noteq> length (LaserAngles s)
                then Inl (CheckFailed ''ChannelCount == LaserAngles.Num()'')
                else
                  (let CurrentHorizontalAngle = HorizontalAngle (LidarMeasurement s);
                       AngleDistanceOfTick =
                         fmul (fmul (RotationFrequency d) (Finite 360)) DeltaTime;
                       AngleDistanceOfLaserMeasure =
                         fdiv AngleDistanceOfTick (float_of_uint32 n);
                       s1 = s\<lparr>LidarMeasurement :=
                                 Reset (ChannelCount * n) (LidarMeasurement s)\<rparr>
                   in (case ScanChannels h CurrentHorizontalAngle AngleDistanceOfLaserMeasure
                              (unat n) [0 ..< unat ChannelCount] s1 of
                         Inl e \<Rightarrow> Inl e
                       | Inr s2 \<Rightarrow>
                          (let NewHorizontalAngle =
                                 fmod (fadd CurrentHorizontalAngle AngleDistanceOfTick)
                                      (Finite 360)
                           in Inr (s2\<lparr>LidarMeasurement :=
                                       (LidarMeasurement s2)
                                         \<lparr>FrameNumber := GFrameCounter h,
                                          HorizontalAngle := NewHorizontalAngle\<rparr>\<rparr>))))))))"

text \<open>
  \<open>Tick\<close> reads the points and writes the view of the measurement to the sink.
  \<open>Super::Tick\<close> works on the base class only: the members above are private.
\<close>

definition Tick :: "host \<Rightarrow> float \<Rightarrow> ALidar \<Rightarrow> error + ALidar" where
  "Tick h DeltaTime s =
     (case ReadPoints h DeltaTime s of
        Inl e \<Rightarrow> Inl e
      | Inr s' \<Rightarrow> Inr (s'\<lparr>Written := Written s' @ [GetView (LidarMeasurement s')]\<rparr>))"

section \<open>The words of the specification\<close>


text \<open>The remainder \<open>x mod m\<close> that lies in \<open>[0, m)\<close>.\<close>

definition mod_real :: "real \<Rightarrow> real \<Rightarrow> real" where
  "mod_real x m = x - m * of_int \<lfloor>x / m\<rfloor>"

text \<open>
  The label of a hit: the tag of the struck component if it is not none, else the first
  tag of the struck object that is not none, else none.
\<close>

definition label_of_hit :: "ECityObjectLabel \<Rightarrow> ECityObjectLabel list \<Rightarrow> ECityObjectLabel" where
  "label_of_hit component_tag object_tags =
     (if component_tag \<noteq> NoneLabel then component_tag
      else case find (\<lambda>t. t \<noteq> NoneLabel) object_tags of
             Some t \<Rightarrow> t
           | None \<Rightarrow> NoneLabel)"

section \<open>Predicates and concrete inputs\<close>

text \<open>Every entry of the table is less than the one before it.\<close>

definition strictly_decreasing :: "float list \<Rightarrow> bool" where
  "strictly_decreasing t = list_all (\<lambda>(a, b). fless b a) (zip t (tl t))"

text \<open>
  The numbers that \<open>CreateLasers\<close> computes from finite limits \<open>u\<close> and \<open>l\<close> when no
  operation overflows: the step for \<open>m + 1\<close> channels and entry \<open>i\<close> for a step \<open>k\<close>.
\<close>

definition LaserStep :: "real \<Rightarrow> real \<Rightarrow> nat \<Rightarrow> real" where
  "LaserStep u l m = nearest (nearest (u - l) / nearest (real m))"

definition LaserEntry :: "real \<Rightarrow> real \<Rightarrow> nat \<Rightarrow> real" where
  "LaserEntry u k i = nearest (u - nearest (nearest (real i) * k))"

text \<open>
  Durations of a tick that are binary32 numbers: the ones nearest to a twentieth, a
  twenty-fifth, a twelfth and a sixtieth of a second.
\<close>

definition twentieth :: real where
  "twentieth = 13421773 / 268435456"

definition twenty_fifth :: real where
  "twenty_fifth = 10737418 / 268435456"

definition twelfth :: real where
  "twelfth = 11184811 / 134217728"

definition sixtieth :: real where
  "sixtieth = 8947849 / 536870912"

text \<open>
  A small world for concrete runs: the actor sits at the origin without rotation, every
  ray hits a wall at its end point or every ray misses, the struck component has no tag
  and the struck actor has the tags none and Vehicle, the rotation library leaves its
  argument alone.
\<close>

definition origin :: FVector where
  "origin = \<lparr>X = Finite 0, Y = Finite 0, Z = Finite 0\<rparr>"

definition level :: FRotator where
  "level = \<lparr>Pitch = Finite 0, Yaw = Finite 0, Roll = Finite 0\<rparr>"

definition stub_host :: "bool \<Rightarrow> host" where
  "stub_host hit =
     \<lparr>LineTraceSingleByChannel =
        (\<lambda>a b. \<lparr>bBlockingHit = hit, ImpactPoint = b, Component = 0, Actor = 0\<rparr>),
      GetActorLocation = origin, GetActorRotation = level, GFrameCounter = 7,
      GetTagOfTaggedComponent = (\<lambda>c. NoneLabel),
      GetTagsOfTaggedActor = (\<lambda>a. [NoneLabel, Label ''Vehicle'']),
      ComposeRotators = (\<lambda>a b. a),
      GetForwardVector = (\<lambda>r. \<lparr>X = Finite 1, Y = Finite 0, Z = Finite 0\<rparr>),
      RotateAngleAxis = (\<lambda>v a ax. v), GetName = ''Lidar'', SensorSet = (\<lambda>d i. i)\<rparr>"

text \<open>A description by channels, points per second, rotation frequency, upper and lower limit.\<close>

definition lidar_config ::
    "uint32 \<Rightarrow> uint32 \<Rightarrow> real \<Rightarrow> real \<Rightarrow> real \<Rightarrow> ULidarDescription" where
  "lidar_config ch pps rf up lo =
     \<lparr>Channels = ch, Range = Finite 5000, PointsPerSecond = pps,
      RotationFrequency = Finite rf, UpperFovLimit = Finite up, LowerFovLimit = Finite lo,
      ShowDebugPoints = False\<rparr>"

definition unconfigured :: ALidar where
  "unconfigured =
     \<lparr>GetId = 0, Description = None, LaserAngles = [],
      LidarMeasurement = NewLidarMeasurement 0 0,
      Logged = [], Traced = [], Drawn = [], Written = []\<rparr>"

definition holding :: "ULidarDescription \<Rightarrow> ALidar" where
  "holding d = unconfigured\<lparr>Description := Some d\<rparr>"

text \<open>A measurement in the middle of a run: half a turn done, one point buffered.\<close>

definition swept :: FLidarMeasurement where
  "swept =
     \<lparr>SensorId = 0, NumChannels = 2, HorizontalAngle = Finite 180, FrameNumber = 7,
      Points = [\<lparr>X4 = Finite 1, Y4 = Finite 2, Z4 = Finite 3, W4 = Label ''Vehicle''\<rparr>]\<rparr>"

text \<open>The rays of a list that hit something: the world's answer is a blocking hit.\<close>

definition BlockingHits :: "host \<Rightarrow> (FVector \<times> FVector) list \<Rightarrow> nat" where
  "BlockingHits h rays =
     length (filter (\<lambda>(a, b). bBlockingHit (LineTraceSingleByChannel h a b)) rays)"

text \<open>The sensor after \<open>Set\<close> with a description, from the unconfigured sensor.\<close>

definition configured :: "ULidarDescription \<Rightarrow> ALidar" where
  "configured d =
     (case Set (stub_host True) d unconfigured of Inr s \<Rightarrow> s | Inl e \<Rightarrow> unconfigured)"

text \<open>
  The sensor after one tick of a twentieth of a second in the world where every ray hits:
  two channels, forty points per second, so one ray for each channel.
\<close>

definition after_first_tick :: ALidar where
  "after_first_tick =
     projr (Tick (stub_host True) (Finite twentieth) (configured (lidar_config 2 40 10 10 (- 30))))"

section \<open>Rounding to binary32\<close>

text \<open>
  What the proofs below need of \<open>nearest\<close>: it is within half a quantum of its
  argument, so within a relative \<open>2 ^ -24\<close> in the normal range and \<open>2 ^ -150\<close> below
  it; it never crosses a multiple of the quantum; it is monotone; it leaves every integer
  of magnitude up to \<open>2 ^ 24\<close> as it is.
\<close>

lemma round_half_even_error: "\<bar>of_int (round_half_even y) - y\<bar> \<le> 1 / 2"
  unfolding round_half_even_def Let_def by (simp; linarith)

lemma round_half_even_of_int: "round_half_even (of_int k) = k"
  by (simp add: round_half_even_def)

lemma round_half_even_bounds:
  "\<lfloor>y\<rfloor> \<le> round_half_even y" "round_half_even y \<le> \<lfloor>y\<rfloor> + 1"
  by (simp_all add: round_half_even_def Let_def)

lemma round_half_even_mono:
  assumes "x \<le> y"
  shows "round_half_even x \<le> round_half_even y"
proof (cases "\<lfloor>x\<rfloor> = \<lfloor>y\<rfloor>")
  case True
  then show ?thesis using assms by (simp add: round_half_even_def Let_def)
next
  case False
  then have "\<lfloor>x\<rfloor> < \<lfloor>y\<rfloor>" using assms floor_mono [of x y] by linarith
  then show ?thesis
    using round_half_even_bounds(2) [of x] round_half_even_bounds(1) [of y] by linarith
qed

lemma round_half_even_ge: "of_int k \<le> y \<Longrightarrow> k \<le> round_half_even y"
  using round_half_even_mono [of "of_int k" y] by (simp add: round_half_even_of_int)

lemma round_half_even_le: "y \<le> of_int k \<Longrightarrow> round_half_even y \<le> k"
  using round_half_even_mono [of y "of_int k"] by (simp add: round_half_even_of_int)

lemma binade_up_cases:
  assumes "1 \<le> x"
  shows "\<exists>n \<le> k. binade_up k x = 2 ^ n \<and> 2 ^ n \<le> x \<and> (n = k \<or> x < 2 * 2 ^ n)"
  using assms
proof (induction k arbitrary: x)
  case 0
  then show ?case by (simp add: binade_up.simps)
next
  case (Suc k)
  show ?case
  proof (cases "x < 2")
    case True
    then show ?thesis using Suc.prems by (intro exI [of _ 0]) (simp add: binade_up.simps)
  next
    case False
    then have "1 \<le> x / 2" by simp
    from Suc.IH [OF this] obtain n where n: "n \<le> k" "binade_up k (x / 2) = 2 ^ n"
        "2 ^ n \<le> x / 2" "n = k \<or> x / 2 < 2 * 2 ^ n" by blast
    have "binade_up (Suc k) x = 2 ^ Suc n" using False n(2) by (simp add: binade_up.simps)
    moreover have "2 ^ Suc n \<le> x" using n(3) by simp
    moreover have "Suc n = Suc k \<or> x < 2 * 2 ^ Suc n" using n(4) by auto
    ultimately show ?thesis using n(1) by (intro exI [of _ "Suc n"]) simp
  qed
qed

lemma binade_down_cases:
  assumes "0 \<le> x" and "x < 1"
  shows "\<exists>n \<le> k. binade_down k x = 1 / 2 ^ n \<and> (n = k \<or> 1 / 2 ^ n \<le> x) \<and> x < 2 / 2 ^ n"
  using assms
proof (induction k arbitrary: x)
  case 0
  then show ?case by (simp add: binade_down.simps)
next
  case (Suc k)
  show ?case
  proof (cases "1 \<le> 2 * x")
    case True
    have "binade_down (Suc k) x = binade_down k (2 * x) / 2"
      using Suc.prems by (simp add: binade_down.simps)
    also have "binade_down k (2 * x) = 1" using True by (simp add: binade_down.simps)
    finally have "binade_down (Suc k) x = 1 / 2 ^ 1" by simp
    moreover have "1 / 2 ^ 1 \<le> x" using True by simp
    moreover have "x < 2 / 2 ^ 1" using Suc.prems by simp
    ultimately show ?thesis by (intro exI [of _ 1]) simp
  next
    case False
    then have "0 \<le> 2 * x" "2 * x < 1" using Suc.prems by simp_all
    from Suc.IH [OF this] obtain n where n: "n \<le> k" "binade_down k (2 * x) = 1 / 2 ^ n"
        "n = k \<or> 1 / 2 ^ n \<le> 2 * x" "2 * x < 2 / 2 ^ n" by blast
    have "binade_down (Suc k) x = 1 / 2 ^ Suc n"
      using Suc.prems n(2) by (simp add: binade_down.simps)
    moreover have "Suc n = Suc k \<or> 1 / 2 ^ Suc n \<le> x" using n(3) by auto
    moreover have "x < 2 / 2 ^ Suc n" using n(4) by simp
    ultimately show ?thesis using n(1) by (intro exI [of _ "Suc n"]) simp
  qed
qed

lemma binade_cases:
  "\<exists>n \<le> 254. binade x = 2 ^ n / 2 ^ 126
      \<and> (n = 0 \<or> binade x \<le> \<bar>x\<bar>) \<and> (n = 254 \<or> \<bar>x\<bar> < 2 * binade x)"
proof (cases "1 \<le> \<bar>x\<bar>")
  case True
  from binade_up_cases [OF this, of 128] obtain n where n: "n \<le> 128"
      "binade_up 128 \<bar>x\<bar> = 2 ^ n" "2 ^ n \<le> \<bar>x\<bar>" "n = 128 \<or> \<bar>x\<bar> < 2 * 2 ^ n" by blast
  have b: "binade x = 2 ^ n" using True n(2) by (simp add: binade_def)
  have "(2::real) ^ (n + 126) / 2 ^ 126 = 2 ^ n" by (simp add: power_add)
  then have "binade x = 2 ^ (n + 126) / 2 ^ 126" using b by simp
  moreover have "binade x \<le> \<bar>x\<bar>" using b n(3) by simp
  moreover have "n + 126 = 254 \<or> \<bar>x\<bar> < 2 * binade x" using b n(4) by auto
  ultimately show ?thesis using n(1) by (intro exI [of _ "n + 126"]) simp
next
  case False
  then have "0 \<le> \<bar>x\<bar>" "\<bar>x\<bar> < 1" by simp_all
  from binade_down_cases [OF this, of 126] obtain n where n: "n \<le> 126"
      "binade_down 126 \<bar>x\<bar> = 1 / 2 ^ n" "n = 126 \<or> 1 / 2 ^ n \<le> \<bar>x\<bar>" "\<bar>x\<bar> < 2 / 2 ^ n" by blast
  have b: "binade x = 1 / 2 ^ n" using False n(2) by (simp add: binade_def)
  have "(2::real) ^ (126 - n) / 2 ^ 126 = 1 / 2 ^ n"
    using n(1) by (simp add: power_diff)
  then have "binade x = 2 ^ (126 - n) / 2 ^ 126" using b by simp
  moreover have "126 - n = 0 \<or> binade x \<le> \<bar>x\<bar>" using b n(1,3) by auto
  moreover have "\<bar>x\<bar> < 2 * binade x" using b n(4) by simp
  ultimately show ?thesis by (intro exI [of _ "126 - n"]) simp
qed

lemma quantum_pos: "0 < quantum x"
  using binade_cases [of x] by (auto simp: quantum_def)

lemma nearest_error_quantum: "\<bar>nearest x - x\<bar> \<le> quantum x / 2"
proof -
  let ?q = "quantum x"
  have q: "0 < ?q" by (rule quantum_pos)
  have "\<bar>of_int (round_half_even (x / ?q)) - x / ?q\<bar> \<le> 1 / 2"
    by (rule round_half_even_error)
  then have "\<bar>of_int (round_half_even (x / ?q)) - x / ?q\<bar> * ?q \<le> 1 / 2 * ?q"
    using q by (simp only: mult_le_cancel_right_pos)
  moreover have "\<bar>of_int (round_half_even (x / ?q)) - x / ?q\<bar> * ?q = \<bar>nearest x - x\<bar>"
  proof -
    have "\<bar>of_int (round_half_even (x / ?q)) - x / ?q\<bar> * ?q
            = \<bar>(of_int (round_half_even (x / ?q)) - x / ?q) * ?q\<bar>"
      using q by (simp add: abs_mult)
    also have "(of_int (round_half_even (x / ?q)) - x / ?q) * ?q = nearest x - x"
      using q by (simp add: nearest_def algebra_simps)
    finally show ?thesis .
  qed
  ultimately show ?thesis by simp
qed

lemma nearest_error: "\<bar>nearest x - x\<bar> \<le> \<bar>x\<bar> / 2 ^ 24 + 1 / 2 ^ 150"
proof -
  obtain n where n: "n \<le> 254" "binade x = 2 ^ n / 2 ^ 126" "n = 0 \<or> binade x \<le> \<bar>x\<bar>"
    using binade_cases [of x] by blast
  have "quantum x / 2 \<le> \<bar>x\<bar> / 2 ^ 24 + 1 / 2 ^ 150"
  proof (cases "n = 0")
    case True
    then have "quantum x / 2 = 1 / 2 ^ 150" using n(2) by (simp add: quantum_def)
    then show ?thesis by simp
  next
    case False
    then have "binade x \<le> \<bar>x\<bar>" using n(3) by simp
    then have "quantum x / 2 \<le> \<bar>x\<bar> / 2 ^ 24" by (simp add: quantum_def)
    then show ?thesis by simp
  qed
  then show ?thesis using nearest_error_quantum [of x] by linarith
qed

lemma nearest_grid_ge:
  assumes "of_int k * quantum x \<le> x"
  shows "of_int k * quantum x \<le> nearest x"
proof -
  have q: "0 < quantum x" by (rule quantum_pos)
  then have "of_int k \<le> x / quantum x" using assms by (simp add: pos_le_divide_eq)
  then have "k \<le> round_half_even (x / quantum x)" by (rule round_half_even_ge)
  then have "of_int k * quantum x \<le> of_int (round_half_even (x / quantum x)) * quantum x"
    using q by simp
  then show ?thesis by (simp add: nearest_def mult.commute)
qed

lemma nearest_grid_le:
  assumes "x \<le> of_int k * quantum x"
  shows "nearest x \<le> of_int k * quantum x"
proof -
  have q: "0 < quantum x" by (rule quantum_pos)
  then have "x / quantum x \<le> of_int k" using assms by (simp add: pos_divide_le_eq)
  then have "round_half_even (x / quantum x) \<le> k" by (rule round_half_even_le)
  then have "of_int (round_half_even (x / quantum x)) * quantum x \<le> of_int k * quantum x"
    using q by simp
  then show ?thesis by (simp add: nearest_def mult.commute)
qed

lemma nearest_nonneg: "0 \<le> x \<Longrightarrow> 0 \<le> nearest x"
  using nearest_grid_ge [of 0 x] by simp

lemma nearest_nonpos: "x \<le> 0 \<Longrightarrow> nearest x \<le> 0"
  using nearest_grid_le [of x 0] by simp

lemma nearest_zero: "nearest 0 = 0"
  using nearest_nonneg [of 0] nearest_nonpos [of 0] by simp


lemma nearest_same_quantum:
  assumes "quantum x = quantum y" and "x \<le> y"
  shows "nearest x \<le> nearest y"
proof -
  have q: "0 < quantum y" by (rule quantum_pos)
  then have "x / quantum y \<le> y / quantum y" using assms(2) by (simp add: divide_right_mono)
  then have "round_half_even (x / quantum y) \<le> round_half_even (y / quantum y)"
    by (rule round_half_even_mono)
  then have "quantum y * of_int (round_half_even (x / quantum y))
               \<le> quantum y * of_int (round_half_even (y / quantum y))"
    using q by simp
  then show ?thesis by (simp add: nearest_def assms(1))
qed

lemma nearest_below_binade:
  assumes "\<bar>x\<bar> < 2 * binade x"
  shows "nearest x \<le> 2 * binade x" and "- (2 * binade x) \<le> nearest x"
proof -
  have g: "of_int (2 ^ 24) * quantum x = 2 * binade x" by (simp add: quantum_def)
  have "x \<le> of_int (2 ^ 24) * quantum x" using assms unfolding g by linarith
  then have "nearest x \<le> of_int (2 ^ 24) * quantum x" by (rule nearest_grid_le)
  then show "nearest x \<le> 2 * binade x" unfolding g .
  have g': "of_int (- (2 ^ 24)) * quantum x = - (2 * binade x)" by (simp add: quantum_def)
  have "of_int (- (2 ^ 24)) * quantum x \<le> x" using assms unfolding g' by linarith
  then have "of_int (- (2 ^ 24)) * quantum x \<le> nearest x" by (rule nearest_grid_ge)
  then show "- (2 * binade x) \<le> nearest x" unfolding g' .
qed

lemma nearest_above_binade:
  assumes "binade x \<le> \<bar>x\<bar>"
  shows "0 \<le> x \<Longrightarrow> binade x \<le> nearest x" and "x \<le> 0 \<Longrightarrow> nearest x \<le> - binade x"
proof -
  have g: "of_int (2 ^ 23) * quantum x = binade x" by (simp add: quantum_def)
  have g': "of_int (- (2 ^ 23)) * quantum x = - binade x" by (simp add: quantum_def)
  { assume "0 \<le> x"
    then have "of_int (2 ^ 23) * quantum x \<le> x" using assms unfolding g by linarith
    then have "of_int (2 ^ 23) * quantum x \<le> nearest x" by (rule nearest_grid_ge)
    then show "binade x \<le> nearest x" unfolding g . }
  { assume "x \<le> 0"
    then have "x \<le> of_int (- (2 ^ 23)) * quantum x" using assms unfolding g' by linarith
    then have "nearest x \<le> of_int (- (2 ^ 23)) * quantum x" by (rule nearest_grid_le)
    then show "nearest x \<le> - binade x" unfolding g' . }
qed

lemma nearest_mono_abs:
  assumes "\<bar>x\<bar> \<le> \<bar>y\<bar>"
  shows "quantum x = quantum y
         \<or> (\<bar>x\<bar> < 2 * binade x \<and> binade y \<le> \<bar>y\<bar> \<and> 2 * binade x \<le> binade y)"
proof -
  obtain n where n: "n \<le> 254" "binade x = 2 ^ n / 2 ^ 126"
      "n = 0 \<or> binade x \<le> \<bar>x\<bar>" "n = 254 \<or> \<bar>x\<bar> < 2 * binade x"
    using binade_cases [of x] by blast
  obtain m where m: "m \<le> 254" "binade y = 2 ^ m / 2 ^ 126"
      "m = 0 \<or> binade y \<le> \<bar>y\<bar>" "m = 254 \<or> \<bar>y\<bar> < 2 * binade y"
    using binade_cases [of y] by blast
  consider "n = m" | "n < m" | "m < n" by linarith
  then show ?thesis
  proof cases
    case 1
    then show ?thesis using n(2) m(2) by (simp add: quantum_def)
  next
    case 2
    then have "Suc n \<le> m" by simp
    then have "(2::real) ^ Suc n \<le> 2 ^ m" by (rule power_increasing) simp
    then have "2 * binade x \<le> binade y" using n(2) m(2) by (simp add: divide_right_mono)
    moreover have "\<bar>x\<bar> < 2 * binade x" using 2 n(4) m(1) by auto
    moreover have "binade y \<le> \<bar>y\<bar>" using 2 m(3) by auto
    ultimately show ?thesis by simp
  next
    case 3
    then have "Suc m \<le> n" by simp
    then have "(2::real) ^ Suc m \<le> 2 ^ n" by (rule power_increasing) simp
    then have "2 * binade y \<le> binade x" using n(2) m(2) by (simp add: divide_right_mono)
    moreover have "\<bar>y\<bar> < 2 * binade y" using 3 m(4) n(1) by auto
    moreover have "binade x \<le> \<bar>x\<bar>" using 3 n(3) by auto
    ultimately have False using assms by linarith
    then show ?thesis ..
  qed
qed

lemma nearest_mono:
  assumes "x \<le> y"
  shows "nearest x \<le> nearest y"
proof -
  consider "x \<le> 0" "0 \<le> y" | "0 \<le> x" | "y \<le> 0" by linarith
  then show ?thesis
  proof cases
    case 1
    then show ?thesis using nearest_nonpos [of x] nearest_nonneg [of y] by linarith
  next
    case 2
    then have "\<bar>x\<bar> \<le> \<bar>y\<bar>" using assms by simp
    from nearest_mono_abs [OF this] show ?thesis
    proof
      assume "quantum x = quantum y"
      then show ?thesis using assms by (rule nearest_same_quantum)
    next
      assume h: "\<bar>x\<bar> < 2 * binade x \<and> binade y \<le> \<bar>y\<bar> \<and> 2 * binade x \<le> binade y"
      have "0 \<le> y" using 2 assms by simp
      then have "binade y \<le> nearest y" using nearest_above_binade(1) h by blast
      moreover have "nearest x \<le> 2 * binade x" using nearest_below_binade(1) h by blast
      ultimately show ?thesis using h by linarith
    qed
  next
    case 3
    then have "\<bar>y\<bar> \<le> \<bar>x\<bar>" using assms by simp
    from nearest_mono_abs [OF this] show ?thesis
    proof
      assume "quantum y = quantum x"
      then have "quantum x = quantum y" by simp
      then show ?thesis using assms by (rule nearest_same_quantum)
    next
      assume h: "\<bar>y\<bar> < 2 * binade y \<and> binade x \<le> \<bar>x\<bar> \<and> 2 * binade y \<le> binade x"
      have "x \<le> 0" using 3 assms by simp
      then have "nearest x \<le> - binade x" using nearest_above_binade(2) h by blast
      moreover have "- (2 * binade y) \<le> nearest y" using nearest_below_binade(2) h by blast
      ultimately show ?thesis using h by linarith
    qed
  qed
qed

lemma nearest_representable:
  assumes "x / quantum x = of_int j"
  shows "nearest x = x"
proof -
  have q: "quantum x \<noteq> 0" using quantum_pos [of x] by simp
  have "nearest x = quantum x * (x / quantum x)"
    by (simp only: nearest_def assms round_half_even_of_int)
  then show ?thesis using q by simp
qed

lemma nearest_of_int:
  assumes "\<bar>k\<bar> \<le> 2 ^ 24"
  shows "nearest (of_int k) = of_int k"
proof (cases "k = 0")
  case True
  then show ?thesis by (simp add: nearest_zero)
next
  case False
  then have "1 \<le> \<bar>k\<bar>" by linarith
  then have "(of_int 1 :: real) \<le> of_int \<bar>k\<bar>" by (simp only: of_int_le_iff)
  then have one: "1 \<le> \<bar>of_int k :: real\<bar>" by simp
  from binade_up_cases [OF this, of 128] obtain n where n:
      "binade_up 128 \<bar>of_int k\<bar> = 2 ^ n" "2 ^ n \<le> \<bar>of_int k :: real\<bar>" by blast
  have b: "binade (of_int k) = 2 ^ n" using one n(1) by (simp add: binade_def)
  have "(of_int \<bar>k\<bar> :: real) \<le> of_int (2 ^ 24)" using assms by (simp only: of_int_le_iff)
  then have "\<bar>of_int k :: real\<bar> \<le> 2 ^ 24" by simp
  then have p24: "(2::real) ^ n \<le> 2 ^ 24" using n(2) by linarith
  have n24: "n \<le> 24" by (rule power_le_imp_le_exp [OF _ p24]) simp
  show ?thesis
  proof (cases "n = 24")
    case True
    then have "\<bar>of_int k :: real\<bar> = 2 ^ 24" using n(2) \<open>\<bar>of_int k :: real\<bar> \<le> 2 ^ 24\<close> by simp
    then have "(of_int k :: real) = 2 ^ 24 \<or> (of_int k :: real) = - (2 ^ 24)" by linarith
    then have "of_int k / quantum (of_int k) = of_int (2 ^ 23)
               \<or> of_int k / quantum (of_int k) = of_int (- (2 ^ 23))"
      using b True by (auto simp: quantum_def)
    then show ?thesis using nearest_representable by blast
  next
    case False
    then have "n \<le> 23" using n24 by simp
    then have r: "(2::real) ^ 23 / 2 ^ n = 2 ^ (23 - n)" by (simp add: power_diff)
    have "of_int k / quantum (of_int k) = of_int k * ((2::real) ^ 23 / 2 ^ n)"
      unfolding quantum_def b by (simp del: power_numeral)
    also have "\<dots> = of_int (k * 2 ^ (23 - n))" unfolding r by simp
    finally show ?thesis by (rule nearest_representable)
  qed
qed

lemma round32_finite: "\<bar>nearest x\<bar> < 2 ^ 128 \<Longrightarrow> round32 x = Finite (nearest x)"
  by (simp add: round32_def Let_def)

lemma round32_of_int:
  assumes "\<bar>k\<bar> \<le> 2 ^ 24"
  shows "round32 (of_int k) = Finite (of_int k)"
proof -
  have "(of_int \<bar>k\<bar> :: real) \<le> of_int (2 ^ 24)" using assms by (simp only: of_int_le_iff)
  then have "\<bar>of_int k :: real\<bar> \<le> 2 ^ 24" by simp
  then have "\<bar>nearest (of_int k)\<bar> < 2 ^ 128" by (simp add: nearest_of_int [OF assms])
  then show ?thesis by (simp add: round32_finite nearest_of_int [OF assms])
qed

lemma round32_of_nat:
  assumes "i \<le> 2 ^ 24"
  shows "round32 (real i) = Finite (real i)"
  using round32_of_int [of "int i"] assms by simp

lemma round32_numeral [simp]:
  "round32 0 = Finite 0" "round32 1 = Finite 1"
  "(numeral w :: int) \<le> 2 ^ 24 \<Longrightarrow> round32 (numeral w) = Finite (numeral w)"
  "(numeral w :: int) \<le> 2 ^ 24 \<Longrightarrow> round32 (- numeral w) = Finite (- numeral w)"
  using round32_of_int [of 0] round32_of_int [of 1]
        round32_of_int [of "numeral w"] round32_of_int [of "- numeral w"]
  by simp_all

text \<open>Roundings of the concrete inputs, by evaluation.\<close>

lemma round32_values [simp]:
  "round32 (1 / 2) = Finite (1 / 2)"
  "round32 (3 / 2) = Finite (3 / 2)"
  "round32 (5 / 2) = Finite (5 / 2)"
  "round32 (175 / 2) = Finite (175 / 2)"
  "round32 (40 * twentieth) = Finite 2"
  "round32 (3600 * twentieth) = Finite 180"
  "round32 (- (3600 * twentieth)) = Finite (- 180)"
  "round32 (56000 * twentieth) = Finite 2800"
  "round32 (25 * twenty_fifth) = Finite 1"
  "round32 (48 * twelfth) = Finite 4"
  "round32 (360 * twelfth) = Finite 30"
  by (simp_all add: round32_def nearest_def quantum_def binade_def binade_up.simps
      binade_down.simps round_half_even_def twentieth_def twenty_fifth_def twelfth_def)

lemma round32_sixtieth [simp]:
  "round32 (3600 * sixtieth) = Finite (15728641 / 262144)"
  "round32 (15728641 / 262144) = Finite (15728641 / 262144)"
  "round32 (4000 * sixtieth) = Finite (4369067 / 65536)"
  "round32 (4369067 / 131072) = Finite (4369067 / 131072)"
  "round32 (4434603 / 131072) = Finite (4434603 / 131072)"
  by (simp_all add: round32_def nearest_def quantum_def binade_def binade_up.simps
      binade_down.simps round_half_even_def sixtieth_def)

text \<open>The numbers that the concrete runs feed to the sensor are binary32 numbers.\<close>

lemma inputs_representable:
  "representable twentieth" "representable twenty_fifth" "representable twelfth"
  "representable sixtieth" "representable 10" "representable (- 30)" "representable 5"
  "representable 1" "representable (16777215 / 16777216)" "representable 350"
  "representable 360" "representable 5000"
  by (simp_all add: representable_def round32_def nearest_def quantum_def binade_def
      binade_up.simps binade_down.simps round_half_even_def twentieth_def twenty_fifth_def
      twelfth_def sixtieth_def)

lemma representable_nearest: "representable x \<Longrightarrow> nearest x = x"
  by (simp add: representable_def round32_def Let_def split: if_splits)

section \<open>The table of laser angles\<close>

lemma upt_small:
  "[0 ..< 1] = [0]" "[0 ..< 2] = [0, 1]" "[0 ..< 3] = [0, 1, 2]" "[0 ..< 4] = [0, 1, 2, 3]"
  by (simp_all add: upt_rec)

lemma lidar_config_sel:
  "Channels (lidar_config ch pps rf up lo) = ch"
  "Range (lidar_config ch pps rf up lo) = Finite 5000"
  "PointsPerSecond (lidar_config ch pps rf up lo) = pps"
  "RotationFrequency (lidar_config ch pps rf up lo) = Finite rf"
  "UpperFovLimit (lidar_config ch pps rf up lo) = Finite up"
  "LowerFovLimit (lidar_config ch pps rf up lo) = Finite lo"
  "ShowDebugPoints (lidar_config ch pps rf up lo) = False"
  by (simp_all add: lidar_config_def)

lemma EmplaceAngles_map:
  "EmplaceAngles U D js acc = acc @ map (\<lambda>i. fsub U (fmul (float_of_nat i) D)) js"
  by (induction js arbitrary: acc) simp_all

lemma length_EmplaceAngles:
  "length (EmplaceAngles U D js acc) = length acc + length js"
  by (simp add: EmplaceAngles_map)

lemma CreateLasers_cases:
  assumes "Description s = Some d"
  shows "CreateLasers s =
           (if Channels d = 0 then Inl (CheckFailed ''NumberOfLasers > 0u'')
            else Inr (s\<lparr>LaserAngles :=
                   EmplaceAngles (UpperFovLimit d)
                     (fdiv (fsub (UpperFovLimit d) (LowerFovLimit d))
                           (float_of_uint32 (Channels d - 1)))
                     [0 ..< unat (Channels d)] []\<rparr>))"
  by (simp add: CreateLasers_def assms Let_def word_greater_zero_iff)

lemma nearest_error_nonneg:
  assumes "0 \<le> x"
  shows "nearest x \<le> x + x / 2 ^ 24 + 1 / 2 ^ 150" and "x - x / 2 ^ 24 - 1 / 2 ^ 150 \<le> nearest x"
    and "0 \<le> nearest x"
  using nearest_error [of x] nearest_nonneg [OF assms] assms by (simp_all add: abs_le_iff)

lemma nearest_one: "nearest 1 = 1"
  using nearest_of_int [of 1] by simp

lemma nearest_count:
  fixes i m :: nat
  assumes "1 \<le> m" and "i \<le> m"
  shows "1 \<le> nearest (real m)" and "0 \<le> nearest (real i)"
    and "nearest (real i) \<le> nearest (real m)"
    and "0 \<le> nearest (real i) / nearest (real m)"
    and "nearest (real i) / nearest (real m) \<le> 1"
proof -
  have "nearest 1 \<le> nearest (real m)" using assms(1) by (intro nearest_mono) simp
  then show M: "1 \<le> nearest (real m)" by (simp add: nearest_one)
  show I: "0 \<le> nearest (real i)" by (rule nearest_nonneg) simp
  show IM: "nearest (real i) \<le> nearest (real m)" using assms(2) by (intro nearest_mono) simp
  show "0 \<le> nearest (real i) / nearest (real m)" using M I by simp
  show "nearest (real i) / nearest (real m) \<le> 1" using M IM by simp
qed

lemma LaserStep_bounds:
  fixes u l :: real and m :: nat
  assumes "l \<le> u" and "\<bar>u\<bar> \<le> 2 ^ 126" and "\<bar>l\<bar> \<le> 2 ^ 126" and "1 \<le> m"
  defines "a \<equiv> u - l" and "d0 \<equiv> nearest (u - l)" and "q0 \<equiv> nearest (u - l) / nearest (real m)"
  shows "0 \<le> d0" and "d0 \<le> a + a / 2 ^ 24 + 1 / 2 ^ 150" and "a - a / 2 ^ 24 - 1 / 2 ^ 150 \<le> d0"
    and "0 \<le> LaserStep u l m"
    and "LaserStep u l m \<le> q0 + q0 / 2 ^ 24 + 1 / 2 ^ 150"
    and "q0 - q0 / 2 ^ 24 - 1 / 2 ^ 150 \<le> LaserStep u l m"
    and "a \<le> 2 ^ 127" and "0 \<le> a" and "0 \<le> q0" and "q0 \<le> d0"
proof -
  show a0: "0 \<le> a" using assms(1) by (simp add: a_def)
  show "a \<le> 2 ^ 127" using assms(2,3) unfolding a_def by (simp add: abs_le_iff)
  show d0: "0 \<le> d0" "d0 \<le> a + a / 2 ^ 24 + 1 / 2 ^ 150" "a - a / 2 ^ 24 - 1 / 2 ^ 150 \<le> d0"
    using nearest_error_nonneg [OF a0] unfolding a_def d0_def by simp_all
  have M: "1 \<le> nearest (real m)" by (rule nearest_count(1) [OF assms(4) le_refl])
  show q0: "0 \<le> q0" using d0(1) M unfolding q0_def d0_def by simp
  have "d0 / nearest (real m) \<le> d0 / 1" using d0(1) M by (intro divide_left_mono) simp_all
  then show "q0 \<le> d0" by (simp add: q0_def d0_def)
  show "0 \<le> LaserStep u l m"
    "LaserStep u l m \<le> q0 + q0 / 2 ^ 24 + 1 / 2 ^ 150"
    "q0 - q0 / 2 ^ 24 - 1 / 2 ^ 150 \<le> LaserStep u l m"
    using nearest_error_nonneg [OF q0] unfolding LaserStep_def q0_def by simp_all
qed

lemma count_ratio:
  fixes i m :: nat
  assumes "1 \<le> m" and "i \<le> m"
  shows "\<bar>nearest (real i) / nearest (real m) - real i / real m\<bar> \<le> 3 / 2 ^ 24"
proof -
  define M where "M = nearest (real m)"
  define J where "J = nearest (real i)"
  define R where "R = J / M"
  define mm where "mm = real m"
  define I where "I = real i"
  note c = nearest_count [OF assms, folded M_def J_def R_def]
  have mm: "1 \<le> mm" "0 \<le> I" "I \<le> mm" using assms by (simp_all add: mm_def I_def)
  have M0: "M \<noteq> 0" using c(1) by simp
  have eM: "\<bar>M - mm\<bar> \<le> mm / 2 ^ 24 + 1 / 2 ^ 150"
    using nearest_error [of mm] mm(1) by (simp add: M_def mm_def)
  have eJ: "\<bar>J - I\<bar> \<le> I / 2 ^ 24 + 1 / 2 ^ 150"
    using nearest_error [of I] mm(2) by (simp add: J_def I_def)
  have "R * M = J" using M0 by (simp add: R_def)
  then have split: "R * mm - I = R * (mm - M) + (J - I)" by (simp add: algebra_simps)
  have "\<bar>R * (mm - M)\<bar> = R * \<bar>mm - M\<bar>" using c(4) by (simp only: abs_mult abs_of_nonneg)
  also have "\<dots> \<le> 1 * \<bar>mm - M\<bar>" using c(5) by (rule mult_right_mono) simp
  finally have rm: "\<bar>R * (mm - M)\<bar> \<le> \<bar>M - mm\<bar>" by (simp add: abs_minus_commute)
  have "\<bar>R * mm - I\<bar> \<le> \<bar>R * (mm - M)\<bar> + \<bar>J - I\<bar>" unfolding split by (rule abs_triangle_ineq)
  then have "\<bar>R * mm - I\<bar> \<le> 3 / 2 ^ 24 * mm" using rm eM eJ mm by simp
  moreover have "(R - I / mm) * mm = R * mm - I" using mm(1) by (simp add: algebra_simps)
  ultimately have "\<bar>(R - I / mm) * mm\<bar> \<le> 3 / 2 ^ 24 * mm" by simp
  then have "\<bar>R - I / mm\<bar> * mm \<le> 3 / 2 ^ 24 * mm" using mm(1) by (simp add: abs_mult)
  then have "\<bar>R - I / mm\<bar> \<le> 3 / 2 ^ 24" using mm(1) by simp
  then show ?thesis by (simp add: R_def J_def M_def I_def mm_def)
qed

lemma LaserEntry_bounds:
  fixes u l :: real and m i :: nat
  assumes "l \<le> u" and "\<bar>u\<bar> \<le> 2 ^ 126" and "\<bar>l\<bar> \<le> 2 ^ 126" and "1 \<le> m" and "i \<le> m"
    and "m \<le> 2 ^ 32"
  shows "\<bar>nearest (nearest (real i) * LaserStep u l m)\<bar> < 2 ^ 128"
    and "\<bar>LaserEntry u (LaserStep u l m) i\<bar> < 2 ^ 128"
    and "\<bar>LaserEntry u (LaserStep u l m) i - (u - real i * ((u - l) / real m))\<bar>
           \<le> (\<bar>u\<bar> + 8 * (u - l)) / 2 ^ 24 + (2 * real i + 8) / 2 ^ 150"
proof -
  define a where "a = u - l"
  define d0 where "d0 = nearest (u - l)"
  define M where "M = nearest (real m)"
  define J where "J = nearest (real i)"
  define R where "R = J / M"
  define q0 where "q0 = nearest (u - l) / nearest (real m)"
  define k where "k = LaserStep u l m"
  define w where "w = J * q0"
  define v where "v = real i * (a / real m)"
  define t where "t = J * k"
  define p where "p = nearest t"
  define y where "y = u - p"
  define x where "x = nearest y"
  define U where "U = \<bar>u\<bar>"
  define Y where "Y = \<bar>y\<bar>"
  define I where "I = real i"
  define b where "b = R * (d0 - a)"
  define c where "c = (R - real i / real m) * a"
  note sb = LaserStep_bounds [OF assms(1-4), folded a_def d0_def k_def q0_def]
  note nc = nearest_count [OF assms(4,5), folded M_def J_def R_def]
  have I: "0 \<le> I" "I \<le> 4294967296"
    using assms(5,6) by (simp_all add: I_def) 
  have J: "J \<le> I + I / 2 ^ 24 + 1 / 2 ^ 150"
    using nearest_error_nonneg(1) [of "real i"] by (simp add: J_def I_def)
  have M0: "M \<noteq> 0" using nc(1) by simp
  have w_eq: "w = R * d0" by (simp add: w_def q0_def R_def d0_def M_def)
  have "R * d0 \<le> 1 * d0" using nc(5) sb(1) by (rule mult_right_mono)
  moreover have "0 \<le> R * d0" using nc(4) sb(1) by (rule mult_nonneg_nonneg)
  ultimately have w: "0 \<le> w" "w \<le> d0" unfolding w_eq by simp_all
  have wv_eq: "w - v = b + c"
    by (simp add: w_eq v_def b_def c_def algebra_simps)
  have "\<bar>b\<bar> = R * \<bar>d0 - a\<bar>" unfolding b_def using nc(4) by (simp only: abs_mult abs_of_nonneg)
  also have "\<dots> \<le> 1 * \<bar>d0 - a\<bar>" using nc(5) by (rule mult_right_mono) simp
  finally have "\<bar>b\<bar> \<le> \<bar>d0 - a\<bar>" by simp
  then have b: "b \<le> a / 2 ^ 24 + 1 / 2 ^ 150" "- b \<le> a / 2 ^ 24 + 1 / 2 ^ 150"
    using sb(2,3) by linarith+
  have "\<bar>c\<bar> = \<bar>R - real i / real m\<bar> * a" unfolding c_def using sb(8) by (simp only: abs_mult abs_of_nonneg)
  also have "\<dots> \<le> 3 / 2 ^ 24 * a"
    using count_ratio [OF assms(4,5)] sb(8) unfolding R_def J_def M_def by (rule mult_right_mono)
  finally have c: "c \<le> 3 * a / 2 ^ 24" "- c \<le> 3 * a / 2 ^ 24" by simp_all
  have "J * k \<le> J * (q0 + q0 / 2 ^ 24 + 1 / 2 ^ 150)"
    using sb(5) nc(2) by (intro mult_left_mono) simp_all
  then have t1: "t \<le> w + w / 2 ^ 24 + J / 2 ^ 150"
    by (simp add: t_def w_def algebra_simps)
  have "J * (q0 - q0 / 2 ^ 24 - 1 / 2 ^ 150) \<le> J * k"
    using sb(6) nc(2) by (intro mult_left_mono) simp_all
  then have t2: "w - w / 2 ^ 24 - J / 2 ^ 150 \<le> t"
    by (simp add: t_def w_def algebra_simps)
  have t0: "0 \<le> t" using sb(4) nc(2) by (simp add: t_def)
  note pb = nearest_error_nonneg [OF t0, folded p_def]
  have Y: "Y \<le> U + p" "0 \<le> U" "u \<le> U" "- u \<le> U" "U \<le> 2 ^ 126"
    using pb(3) assms(2) by (simp_all add: Y_def U_def y_def)
  have "\<bar>x - y\<bar> \<le> Y / 2 ^ 24 + 1 / 2 ^ 150"
    using nearest_error [of y] by (simp add: x_def Y_def)
  then have xy: "x - y \<le> Y / 2 ^ 24 + 1 / 2 ^ 150" "y - x \<le> Y / 2 ^ 24 + 1 / 2 ^ 150"
    by linarith+
  have yy: "y = u - p" by (simp add: y_def)
  have a127: "a \<le> 170141183460469231731687303715884105728" "0 \<le> a" using sb(7,8) by simp_all
  have U126: "U \<le> 85070591730234615865843651857942052864" using Y(5) by simp
  have e: "(2::real) ^ 24 = 16777216"
    "(2::real) ^ 150 = 1427247692705959881058285969449495136382746624"
    "(2::real) ^ 128 = 340282366920938463463374607431768211456" by simp_all
  have pfin: "p < 2 ^ 128"
    using pb(1) t1 w(2) sb(2) a127 I J nc(2) unfolding e by linarith
  then show "\<bar>nearest (nearest (real i) * LaserStep u l m)\<bar> < 2 ^ 128"
    using pb(3) by (simp add: p_def t_def k_def J_def)
  have xfin: "x < 2 ^ 128" "- (2 ^ 128) < x"
    using xy Y yy pb(1) t1 w(2) sb(2) a127 I J nc(2) U126 unfolding e by linarith+
  then show "\<bar>LaserEntry u (LaserStep u l m) i\<bar> < 2 ^ 128"
    by (simp add: LaserEntry_def x_def y_def p_def t_def k_def J_def abs_less_iff)
  have up: "x - (u - v) \<le> U / 2 ^ 24 + 8 * a / 2 ^ 24 + 2 * I / 2 ^ 150 + 8 / 2 ^ 150"
    using xy Y yy pb(1,2) t1 t2 w sb(2,3) wv_eq b c a127 I J nc(2) unfolding e by linarith
  have lo: "(u - v) - x \<le> U / 2 ^ 24 + 8 * a / 2 ^ 24 + 2 * I / 2 ^ 150 + 8 / 2 ^ 150"
    using xy Y yy pb(1,2) t1 t2 w sb(2,3) wv_eq b c a127 I J nc(2) unfolding e by linarith
  from up lo have "\<bar>x - (u - v)\<bar> \<le> (U + 8 * a) / 2 ^ 24 + (2 * I + 8) / 2 ^ 150"
    by (simp add: abs_le_iff add_divide_distrib)
  then show "\<bar>LaserEntry u (LaserStep u l m) i - (u - real i * ((u - l) / real m))\<bar>
           \<le> (\<bar>u\<bar> + 8 * (u - l)) / 2 ^ 24 + (2 * real i + 8) / 2 ^ 150"
    by (simp add: LaserEntry_def x_def y_def p_def t_def k_def v_def a_def U_def I_def J_def)
qed

lemma LaserEntry_mono:
  assumes "0 \<le> k" and "i \<le> j"
  shows "LaserEntry u k j \<le> LaserEntry u k i"
proof -
  have "nearest (real i) \<le> nearest (real j)" using assms(2) by (intro nearest_mono) simp
  then have "nearest (real i) * k \<le> nearest (real j) * k" using assms(1) by (rule mult_right_mono)
  then have "nearest (nearest (real i) * k) \<le> nearest (nearest (real j) * k)" by (rule nearest_mono)
  then have "u - nearest (nearest (real j) * k) \<le> u - nearest (nearest (real i) * k)" by simp
  then show ?thesis unfolding LaserEntry_def by (rule nearest_mono)
qed

lemma LaserEntry_first: "representable u \<Longrightarrow> LaserEntry u k 0 = u"
  by (simp add: LaserEntry_def nearest_zero representable_nearest)

lemma round32_count:
  fixes i :: nat
  assumes "i \<le> 2 ^ 32"
  shows "round32 (real i) = Finite (nearest (real i))"
proof -
  have I: "real i \<le> 4294967296" using assms by simp
  have e: "(2::real) ^ 24 = 16777216"
    "(2::real) ^ 150 = 1427247692705959881058285969449495136382746624"
    "(2::real) ^ 128 = 340282366920938463463374607431768211456" by simp_all
  note b = nearest_error_nonneg [of "real i"]
  have "nearest (real i) < 2 ^ 128" using b(1) I unfolding e by simp
  moreover have "0 \<le> nearest (real i)" using b(3) by simp
  ultimately have "\<bar>nearest (real i)\<bar> < 2 ^ 128" by simp
  then show ?thesis by (rule round32_finite)
qed

lemma CreateLasers_table:
  assumes "Description s = Some d" and "2 \<le> unat (Channels d)"
    and "UpperFovLimit d = Finite u" and "LowerFovLimit d = Finite l" and "l \<le> u"
    and "\<bar>u\<bar> \<le> 2 ^ 126" and "\<bar>l\<bar> \<le> 2 ^ 126"
  shows "CreateLasers s = Inr (s\<lparr>LaserAngles :=
           map Finite (map (LaserEntry u (LaserStep u l (unat (Channels d) - 1)))
                         [0 ..< unat (Channels d)])\<rparr>)"
proof -
  define n where "n = unat (Channels d)"
  define m where "m = n - 1"
  define k where "k = LaserStep u l m"
  have "unat (Channels d) < 2 ^ 32" using unsigned_less [of "Channels d", where ?'a = nat] by simp
  then have n32: "n \<le> 2 ^ 32" by (simp add: n_def)
  have m: "1 \<le> m" "m \<le> 2 ^ 32" using assms(2) n32 by (simp_all add: m_def n_def)
  have nz: "Channels d \<noteq> 0" using assms(2) by auto
  then have one: "unat (Channels d - 1) = m" unfolding m_def n_def by (rule unat_minus_one)
  have fm: "float_of_uint32 (Channels d - 1) = Finite (nearest (real m))"
    by (simp add: float_of_uint32_def one round32_count [OF m(2)])
  define a where "a = u - l"
  define d0 where "d0 = nearest (u - l)"
  define q0 where "q0 = nearest (u - l) / nearest (real m)"
  note sb = LaserStep_bounds [OF assms(5-7) m(1), folded a_def d0_def k_def q0_def]
  have e: "(2::real) ^ 24 = 16777216"
    "(2::real) ^ 150 = 1427247692705959881058285969449495136382746624"
    "(2::real) ^ 127 = 170141183460469231731687303715884105728"
    "(2::real) ^ 128 = 340282366920938463463374607431768211456" by simp_all
  have "d0 < 2 ^ 128" using sb(1,2,7,8) unfolding e by linarith
  then have d0: "\<bar>nearest (u - l)\<bar> < 2 ^ 128" using sb(1) by (simp add: d0_def)
  have "k < 2 ^ 128" using sb(1,2,4,5,7,8,9,10) unfolding e by linarith
  then have kf: "\<bar>k\<bar> < 2 ^ 128" using sb(4) by simp
  have sub: "fsub (Finite u) (Finite l) = Finite (nearest (u - l))"
    using d0 by (simp add: fsub_def round32_finite)
  have "nearest (real m) \<noteq> 0" using nearest_count(1) [OF m(1), of m] by simp
  then have delta: "fdiv (fsub (Finite u) (Finite l)) (float_of_uint32 (Channels d - 1)) = Finite k"
    using kf by (simp add: sub fm round32_finite k_def LaserStep_def)
  have entry: "fsub (Finite u) (fmul (float_of_nat i) (Finite k)) = Finite (LaserEntry u k i)"
    if "i < n" for i
  proof -
    have i: "i \<le> m" "i \<le> 2 ^ 32" using that n32 by (simp_all add: m_def)
    note eb = LaserEntry_bounds [OF assms(5-7) m(1) i(1) m(2), folded k_def]
    have "fmul (float_of_nat i) (Finite k) = Finite (nearest (nearest (real i) * k))"
      using eb(1) by (simp add: float_of_nat_def round32_count [OF i(2)] round32_finite)
    then show ?thesis
      using eb(2) by (simp add: fsub_def round32_finite LaserEntry_def)
  qed
  have "map (\<lambda>i. fsub (Finite u) (fmul (float_of_nat i) (Finite k))) [0 ..< n]
          = map (\<lambda>i. Finite (LaserEntry u k i)) [0 ..< n]"
    by (rule map_cong) (simp_all add: entry)
  then show ?thesis
    using nz by (simp add: CreateLasers_cases [OF assms(1)] assms(3,4) EmplaceAngles_map delta
        n_def [symmetric] k_def m_def)
qed

text \<open>
  Claim C1, as the code has it. With at least two channels and limits \<open>lower \<le> upper\<close>
  of magnitude at most \<open>2 ^ 126\<close>, the upper one a binary32 number, \<open>CreateLasers\<close>
  builds a table of \<open>channels\<close> finite angles whose first entry is the upper limit. The
  entries never increase. Entry \<open>i\<close> lies within
  \<open>(|upper| + 8 (upper - lower)) / 2 ^ 24 + (2 i + 8) / 2 ^ 150\<close> of the evenly spaced
  angle \<open>upper - i (upper - lower) / (channels - 1)\<close>; in particular the last entry lies
  within that distance of the lower limit.
\<close>

theorem CreateLasers_evenly_spaced:
  assumes "Description s = Some d" and "2 \<le> unat (Channels d)"
    and "UpperFovLimit d = Finite u" and "LowerFovLimit d = Finite l" and "l \<le> u"
    and "representable u" and "\<bar>u\<bar> \<le> 2 ^ 126" and "\<bar>l\<bar> \<le> 2 ^ 126"
  shows "\<exists>xs. CreateLasers s = Inr (s\<lparr>LaserAngles := map Finite xs\<rparr>)
           \<and> length xs = unat (Channels d)
           \<and> xs ! 0 = u
           \<and> (\<forall>i. i + 1 < unat (Channels d) \<longrightarrow> xs ! (i + 1) \<le> xs ! i)
           \<and> (\<forall>i < unat (Channels d).
                 \<bar>xs ! i - (u - real i * ((u - l) / real (unat (Channels d) - 1)))\<bar>
                   \<le> (\<bar>u\<bar> + 8 * (u - l)) / 2 ^ 24 + (2 * real i + 8) / 2 ^ 150)
           \<and> \<bar>xs ! (unat (Channels d) - 1) - l\<bar>
                   \<le> (\<bar>u\<bar> + 8 * (u - l)) / 2 ^ 24 + (2 * real (unat (Channels d)) + 6) / 2 ^ 150"
proof -
  define n where "n = unat (Channels d)"
  define m where "m = n - 1"
  define k where "k = LaserStep u l m"
  define xs where "xs = map (LaserEntry u k) [0 ..< n]"
  have "unat (Channels d) < 2 ^ 32" using unsigned_less [of "Channels d", where ?'a = nat] by simp
  then have n2: "2 \<le> n" "n \<le> 2 ^ 32" using assms(2) by (simp_all add: n_def)
  have m: "1 \<le> m" "m \<le> 2 ^ 32" using n2 by (simp_all add: m_def)
  have k0: "0 \<le> k" unfolding k_def by (rule LaserStep_bounds(4) [OF assms(5,7,8) m(1)])
  have run: "CreateLasers s = Inr (s\<lparr>LaserAngles := map Finite xs\<rparr>)"
    using CreateLasers_table [OF assms(1-5,7,8)] by (simp add: xs_def k_def m_def n_def)
  have len: "length xs = n" by (simp add: xs_def)
  have first: "xs ! 0 = u" using n2 by (simp add: xs_def LaserEntry_first [OF assms(6)])
  have mono: "\<forall>i. i + 1 < n \<longrightarrow> xs ! (i + 1) \<le> xs ! i"
    using LaserEntry_mono [OF k0] by (simp add: xs_def)
  have tol: "\<bar>xs ! i - (u - real i * ((u - l) / real m))\<bar>
               \<le> (\<bar>u\<bar> + 8 * (u - l)) / 2 ^ 24 + (2 * real i + 8) / 2 ^ 150" if "i < n" for i
  proof -
    have "i \<le> m" using that by (simp add: m_def)
    from LaserEntry_bounds(3) [OF assms(5,7,8) m(1) this m(2)] that
    show ?thesis by (simp add: xs_def k_def)
  qed
  have eq1: "u - real m * ((u - l) / real m) = l" using m(1) by simp
  have eq2: "2 * real m + 8 = 2 * real n + 6" using n2 by (simp add: m_def)
  have "m < n" using n2 by (simp add: m_def)
  from tol [OF this] have last: "\<bar>xs ! m - l\<bar>
               \<le> (\<bar>u\<bar> + 8 * (u - l)) / 2 ^ 24 + (2 * real n + 6) / 2 ^ 150"
    unfolding eq1 eq2 .
  have all: "\<forall>i < n. \<bar>xs ! i - (u - real i * ((u - l) / real m))\<bar>
               \<le> (\<bar>u\<bar> + 8 * (u - l)) / 2 ^ 24 + (2 * real i + 8) / 2 ^ 150"
    using tol by blast
  show ?thesis
    unfolding n_def [symmetric] m_def [symmetric]
    using run len first mono all last by blast
qed

lemma round32_table_values [simp]:
  "round32 (31 / 7) = Finite (9287387 / 2097152)"
  "round32 (65011709 / 2097152) = Finite (16252927 / 524288)"
  "round32 (- (15728639 / 524288)) = Finite (- (15728639 / 524288))"
  "round32 (1 / 16777216) = Finite (1 / 16777216)"
  "round32 (1 / 33554432) = Finite (1 / 33554432)"
  "round32 (33554431 / 33554432) = Finite 1"
  "round32 (16777215 / 16777216) = Finite (16777215 / 16777216)"
  by (simp_all add: round32_def nearest_def quantum_def binade_def binade_up.simps
      binade_down.simps round_half_even_def)

lemma round32_overflow: "round32 (2 ^ 128) = PInf"
  by (simp add: round32_def nearest_def quantum_def binade_def binade_up.simps round_half_even_def)

text \<open>Three channels from 10 down to -30 degrees.\<close>

theorem CreateLasers_evenly_spaced_witness:
  "\<exists>xs. CreateLasers (holding (lidar_config 3 20 10 10 (- 30)))
          = Inr ((holding (lidar_config 3 20 10 10 (- 30)))\<lparr>LaserAngles := map Finite xs\<rparr>)
       \<and> length xs = 3 \<and> xs ! 0 = 10 \<and> xs ! 1 \<le> xs ! 0 \<and> xs ! 2 \<le> xs ! 1
       \<and> \<bar>xs ! 2 - (- 30)\<bar> \<le> 330 / 2 ^ 24 + 12 / 2 ^ 150"
proof -
  from CreateLasers_evenly_spaced
         [of "holding (lidar_config 3 20 10 10 (- 30))" "lidar_config 3 20 10 10 (- 30)" 10 "- 30"]
  obtain xs where xs:
      "CreateLasers (holding (lidar_config 3 20 10 10 (- 30)))
          = Inr ((holding (lidar_config 3 20 10 10 (- 30)))\<lparr>LaserAngles := map Finite xs\<rparr>)"
      "length xs = 3" "xs ! 0 = 10"
      "\<forall>i. i + 1 < (3::nat) \<longrightarrow> xs ! (i + 1) \<le> xs ! i"
      "\<bar>xs ! 2 - (- 30)\<bar> \<le> 330 / 2 ^ 24 + 12 / 2 ^ 150"
    by (auto simp add: holding_def unconfigured_def lidar_config_sel representable_def)
  from xs(4) have "0 + 1 < (3::nat) \<longrightarrow> xs ! (0 + 1) \<le> xs ! 0"
    and "1 + 1 < (3::nat) \<longrightarrow> xs ! (1 + 1) \<le> xs ! 1" by blast+
  then have "xs ! 1 \<le> xs ! 0" "xs ! 2 \<le> xs ! 1" by (simp_all add: numeral_2_eq_2)
  with xs(1,2,3,5) show ?thesis by blast
qed

text \<open>
  Claim C1, as stated, fails in four ways. Two channels with both limits at 5 degrees
  satisfy \<open>channels \<ge> 2\<close> and \<open>lower \<le> upper\<close>, and the table is 5, 5, which is not
  strictly decreasing. Eight channels from 1 down to -30 degrees end at
  -15728639 / 524288, which is not the lower limit: the step 31 / 7 and seven times the
  step are rounded. Three channels from 1 down to the next binary32 number below 1 give
  the table 1, 1, 16777215 / 16777216: the lower limit is below the upper one and the
  table is not strictly decreasing. Two channels from \<open>2 ^ 127\<close> down to \<open>- (2 ^ 127)\<close>,
  both binary32 numbers, give the table NaN, minus infinity: the difference of the limits
  overflows, the step is infinite and the first entry is \<open>upper - 0 * infinity\<close>.
\<close>

theorem CreateLasers_not_strict_not_exact:
  "2 \<le> unat (Channels (lidar_config 2 20 10 5 5))
   \<and> \<not> fless (UpperFovLimit (lidar_config 2 20 10 5 5)) (LowerFovLimit (lidar_config 2 20 10 5 5))
   \<and> CreateLasers (holding (lidar_config 2 20 10 5 5))
       = Inr ((holding (lidar_config 2 20 10 5 5))\<lparr>LaserAngles := [Finite 5, Finite 5]\<rparr>)
   \<and> \<not> strictly_decreasing [Finite 5, Finite 5]
   \<and> \<not> isl (CreateLasers (holding (lidar_config 8 20 10 1 (- 30))))
   \<and> LaserAngles (projr (CreateLasers (holding (lidar_config 8 20 10 1 (- 30))))) ! 7
       = Finite (- (15728639 / 524288))
   \<and> Finite (- (15728639 / 524288)) \<noteq> LowerFovLimit (lidar_config 8 20 10 1 (- 30))
   \<and> fless (LowerFovLimit (lidar_config 3 20 10 1 (16777215 / 16777216)))
            (UpperFovLimit (lidar_config 3 20 10 1 (16777215 / 16777216)))
   \<and> CreateLasers (holding (lidar_config 3 20 10 1 (16777215 / 16777216)))
       = Inr ((holding (lidar_config 3 20 10 1 (16777215 / 16777216)))
                \<lparr>LaserAngles := [Finite 1, Finite 1, Finite (16777215 / 16777216)]\<rparr>)
   \<and> \<not> strictly_decreasing [Finite 1, Finite 1, Finite (16777215 / 16777216)]
   \<and> representable (2 ^ 127) \<and> representable (- (2 ^ 127))
   \<and> CreateLasers (holding (lidar_config 2 20 10 (2 ^ 127) (- (2 ^ 127))))
       = Inr ((holding (lidar_config 2 20 10 (2 ^ 127) (- (2 ^ 127))))
                \<lparr>LaserAngles := [NaN, NInf]\<rparr>)"
proof -
  have held: "Description (holding d) = Some d" for d
    by (simp add: holding_def)
  have two: "CreateLasers (holding (lidar_config 2 20 10 5 5))
       = Inr ((holding (lidar_config 2 20 10 5 5))\<lparr>LaserAngles := [Finite 5, Finite 5]\<rparr>)"
    by (simp add: CreateLasers_cases [OF held] lidar_config_sel float_of_uint32_def
        float_of_nat_def fsub_def upt_small)
  have eight: "CreateLasers (holding (lidar_config 8 20 10 1 (- 30)))
       = Inr ((holding (lidar_config 8 20 10 1 (- 30)))
           \<lparr>LaserAngles := map (\<lambda>i. fsub (Finite 1) (fmul (float_of_nat i) (Finite (9287387 / 2097152))))
                              [0 ..< 8]\<rparr>)"
    by (simp add: CreateLasers_cases [OF held] lidar_config_sel float_of_uint32_def fsub_def
        EmplaceAngles_map)
  have last: "fsub (Finite 1) (fmul (float_of_nat 7) (Finite (9287387 / 2097152)))
                = Finite (- (15728639 / 524288))"
    by (simp add: float_of_nat_def fsub_def)
  have three: "CreateLasers (holding (lidar_config 3 20 10 1 (16777215 / 16777216)))
       = Inr ((holding (lidar_config 3 20 10 1 (16777215 / 16777216)))
                \<lparr>LaserAngles := [Finite 1, Finite 1, Finite (16777215 / 16777216)]\<rparr>)"
    by (simp add: CreateLasers_cases [OF held] lidar_config_sel float_of_uint32_def
        float_of_nat_def fsub_def upt_small)
  have big: "representable (2 ^ 127)" "representable (- (2 ^ 127))"
    by (simp_all add: representable_def round32_def nearest_def quantum_def binade_def
        binade_up.simps round_half_even_def)
  have over: "CreateLasers (holding (lidar_config 2 20 10 (2 ^ 127) (- (2 ^ 127))))
       = Inr ((holding (lidar_config 2 20 10 (2 ^ 127) (- (2 ^ 127))))
                \<lparr>LaserAngles := [NaN, NInf]\<rparr>)"
    using round32_overflow
    by (simp add: CreateLasers_cases [OF held] lidar_config_sel float_of_uint32_def
        float_of_nat_def fsub_def upt_small signed_inf_def)
  show ?thesis
    by (simp only: two eight three last big over lidar_config_sel strictly_decreasing_def simp_thms)
       (simp add: two eight three last lidar_config_sel strictly_decreasing_def)
qed

text \<open>
  Claim C2 at one channel, upper limit 10 and lower limit -30. \<open>check\<close> lets one channel
  pass; the step is then 40 divided by zero, an infinity, and the only entry of the table
  is \<open>10 - 0 * infinity\<close>, which is NaN and not the upper limit.
\<close>

theorem CreateLasers_single_channel_NaN:
  "fdiv (fsub (UpperFovLimit (lidar_config 1 20 10 10 (- 30)))
              (LowerFovLimit (lidar_config 1 20 10 10 (- 30))))
        (float_of_uint32 (Channels (lidar_config 1 20 10 10 (- 30)) - 1)) = PInf
   \<and> CreateLasers (holding (lidar_config 1 20 10 10 (- 30)))
       = Inr ((holding (lidar_config 1 20 10 10 (- 30)))\<lparr>LaserAngles := [NaN]\<rparr>)"
  by (simp add: holding_def unconfigured_def lidar_config_def CreateLasers_def
      float_of_uint32_def float_of_nat_def fsub_def signed_inf_def upt_small)

section \<open>Configuration of the sensor\<close>

text \<open>
  Claim C8, as the code has it. \<open>Set\<close> rejects a description exactly when it has zero
  channels, by the \<open>check\<close> of \<open>CreateLasers\<close>; every other description, whatever its
  limits, range and points per second, is taken over and gets a table of \<open>channels\<close>
  angles.
\<close>

theorem Set_rejects_zero_channels_only:
  "(Set h d s = Inl (CheckFailed ''NumberOfLasers > 0u'')) = (Channels d = 0)
   \<and> (\<exists>s'. Set h d s = Inr s' \<and> Description s' = Some d
             \<and> length (LaserAngles s') = unat (Channels d)) = (Channels d \<noteq> 0)"
  by (simp add: Set_def Let_def CreateLasers_cases length_EmplaceAngles)

text \<open>Zero channels are rejected, four channels are configured.\<close>

theorem Set_rejects_zero_channels_only_witness:
  "Set (stub_host True) (lidar_config 0 20 10 10 (- 30)) unconfigured
     = Inl (CheckFailed ''NumberOfLasers > 0u'')
   \<and> (\<exists>s'. Set (stub_host True) (lidar_config 4 20 10 10 (- 30)) unconfigured = Inr s'
           \<and> Description s' = Some (lidar_config 4 20 10 10 (- 30))
           \<and> length (LaserAngles s') = 4)"
  using Set_rejects_zero_channels_only [of "stub_host True" "lidar_config 0 20 10 10 (- 30)" unconfigured]
        Set_rejects_zero_channels_only [of "stub_host True" "lidar_config 4 20 10 10 (- 30)" unconfigured]
  by (simp add: lidar_config_def)

text \<open>
  Claim C8, as stated, fails: a description with the upper limit below the lower limit,
  zero points per second and a negative range is configured, with the table -30, 10.
\<close>

theorem Set_accepts_inverted_limits:
  "fless (UpperFovLimit ((lidar_config 2 0 10 (- 30) 10)\<lparr>Range := Finite (- 1)\<rparr>))
         (LowerFovLimit ((lidar_config 2 0 10 (- 30) 10)\<lparr>Range := Finite (- 1)\<rparr>))
   \<and> Set (stub_host True) ((lidar_config 2 0 10 (- 30) 10)\<lparr>Range := Finite (- 1)\<rparr>) unconfigured
       = Inr (unconfigured
               \<lparr>Description := Some ((lidar_config 2 0 10 (- 30) 10)\<lparr>Range := Finite (- 1)\<rparr>),
                LaserAngles := [Finite (- 30), Finite 10],
                LidarMeasurement := NewLidarMeasurement 0 2\<rparr>)"
  by (simp add: Set_def Let_def CreateLasers_cases lidar_config_def unconfigured_def stub_host_def
      float_of_uint32_def float_of_nat_def fsub_def upt_small)



section \<open>The budget of a tick\<close>













text \<open>
  Claim C4. When the budget of the tick is zero, \<open>ReadPoints\<close> returns normally with one
  warning logged and nothing else changed: no ray is traced, no point is appended, and the
  horizontal angle and the frame number of the measurement are the ones before the tick.
\<close>

theorem ReadPoints_no_points_requested:
  assumes "Description s = Some d" and "PointsToScanWithOneLaser d dt = Inr n" and "n \<le> 0"
  shows "\<exists>s'. ReadPoints h dt s = Inr s'
           \<and> s' = s\<lparr>Logged := Logged s @ [NoPointsWarning h]\<rparr>
           \<and> Traced s' = Traced s
           \<and> Points (LidarMeasurement s') = Points (LidarMeasurement s)
           \<and> HorizontalAngle (LidarMeasurement s') = HorizontalAngle (LidarMeasurement s)
           \<and> FrameNumber (LidarMeasurement s') = FrameNumber (LidarMeasurement s)"
  using assms by (simp add: ReadPoints_def)

text \<open>The fixture with two channels, as \<open>Set\<close> leaves it.\<close>

lemma configured_two:
  "configured (lidar_config 2 pps rf 10 (- 30)) =
     unconfigured\<lparr>Description := Some (lidar_config 2 pps rf 10 (- 30)),
                  LaserAngles := [Finite 10, Finite (- 30)],
                  LidarMeasurement := NewLidarMeasurement 0 2\<rparr>"
  by (simp add: configured_def Set_def Let_def CreateLasers_cases lidar_config_def
      unconfigured_def stub_host_def float_of_uint32_def float_of_nat_def fsub_def upt_small)

text \<open>A tick of duration zero on a sensor half a turn into its run.\<close>

theorem ReadPoints_no_points_requested_witness:
  "\<exists>s'. ReadPoints (stub_host True) (Finite 0)
            ((configured (lidar_config 2 40 10 10 (- 30)))\<lparr>LidarMeasurement := swept\<rparr>) = Inr s'
       \<and> Logged s' = [NoPointsWarning (stub_host True)]
       \<and> Traced s' = []
       \<and> LidarMeasurement s' = swept"
proof -
  have held: "Description ((configured (lidar_config 2 40 10 10 (- 30)))\<lparr>LidarMeasurement := swept\<rparr>)
                = Some (lidar_config 2 40 10 10 (- 30))"
    by (simp add: configured_two)
  have none: "PointsToScanWithOneLaser (lidar_config 2 40 10 10 (- 30)) (Finite 0) = Inr 0"
    by (simp add: PointsToScanWithOneLaser_def lidar_config_def float_of_uint32_def
        RoundHalfFromZero_def truncate_def)
  from ReadPoints_no_points_requested [OF held none, of "stub_host True"]
  show ?thesis by (simp add: configured_two unconfigured_def)
qed

section \<open>The label of a hit\<close>

lemma FirstTagged_find:
  "FirstTagged tags NoneLabel =
     (case find (\<lambda>t. t \<noteq> NoneLabel) tags of Some t \<Rightarrow> t | None \<Rightarrow> NoneLabel)"
  by (induction tags) simp_all

lemma HitTag_label_of_hit:
  "HitTag h HitInfo =
     label_of_hit (GetTagOfTaggedComponent h (Component HitInfo))
                  (GetTagsOfTaggedActor h (Actor HitInfo))"
  by (simp add: HitTag_def label_of_hit_def Let_def FirstTagged_find)

text \<open>
  Claim C7. The label of the point that \<open>ShootLaser\<close> returns for the ray it traced (the
  last one of \<open>Traced\<close>) is the tag of the struck component when that tag is not none,
  else the first tag of the struck actor that is not none, else none.
\<close>

theorem ShootLaser_label:
  assumes "ShootLaser h Channel Angle s = Inr (Some p, s')"
  shows "W4 p =
           label_of_hit
             (GetTagOfTaggedComponent h
                (Component (LineTraceSingleByChannel h (fst (last (Traced s'))) (snd (last (Traced s'))))))
             (GetTagsOfTaggedActor h
                (Actor (LineTraceSingleByChannel h (fst (last (Traced s'))) (snd (last (Traced s'))))))"
  using assms
  by (auto simp add: ShootLaser_def Let_def HitTag_label_of_hit split: if_splits option.splits)

text \<open>
  The struck component has no tag and the struck actor has the tags none and Vehicle: the
  label of the point is Vehicle.
\<close>

theorem ShootLaser_label_witness:
  "GetTagOfTaggedComponent (stub_host True) 0 = NoneLabel
   \<and> GetTagsOfTaggedActor (stub_host True) 0 = [NoneLabel, Label ''Vehicle'']
   \<and> (\<exists>p s'. ShootLaser (stub_host True) 0 (Finite 0)
                  (configured (lidar_config 2 40 10 10 (- 30))) = Inr (Some p, s')
          \<and> W4 p = Label ''Vehicle'')"
proof -
  have shot: "ShootLaser (stub_host True) 0 (Finite 0) (configured (lidar_config 2 40 10 10 (- 30)))
      = Inr (Some \<lparr>X4 = Finite (- 5000), Y4 = Finite 0, Z4 = Finite 0, W4 = Label ''Vehicle''\<rparr>,
             (configured (lidar_config 2 40 10 10 (- 30)))
               \<lparr>Traced := [(origin, \<lparr>X = Finite 5000, Y = Finite 0, Z = Finite 0\<rparr>)]\<rparr>)"
    by (simp add: ShootLaser_def configured_two unconfigured_def lidar_config_sel stub_host_def
        Let_def HitTag_def vadd_def vscale_def vsub_def fsub_def origin_def level_def)
  from ShootLaser_label [OF shot] shot
  show ?thesis by (simp add: stub_host_def label_of_hit_def)
qed

section \<open>The sweep\<close>

text \<open>
  What one ray, one channel and all channels do to the sensor. With the channel inside the
  table no step fails; each step traces one ray and appends one point exactly when the ray
  hits.
\<close>

lemma BlockingHits_append:
  "BlockingHits h (xs @ ys) = BlockingHits h xs + BlockingHits h ys"
  by (simp add: BlockingHits_def)

lemma BlockingHits_le: "BlockingHits h rays \<le> length rays"
  by (simp add: BlockingHits_def)

lemma ShootLaser_effect:
  assumes "Channel < length (LaserAngles s)" and "Description s = Some d"
  shows "\<exists>r s' ray. ShootLaser h Channel Angle s = Inr (r, s')
           \<and> Description s' = Some d \<and> LaserAngles s' = LaserAngles s
           \<and> LidarMeasurement s' = LidarMeasurement s
           \<and> Written s' = Written s \<and> Logged s' = Logged s
           \<and> Traced s' = Traced s @ [ray]
           \<and> (r \<noteq> None) = bBlockingHit (LineTraceSingleByChannel h (fst ray) (snd ray))"
  using assms by (simp add: ShootLaser_def Let_def)

lemma ScanPoint_effect:
  assumes "Channel < length (LaserAngles s)" and "Description s = Some d"
  shows "\<exists>s' ray. ScanPoint h Channel cur step i s = Inr s'
           \<and> Description s' = Some d \<and> LaserAngles s' = LaserAngles s
           \<and> Written s' = Written s \<and> Logged s' = Logged s
           \<and> Traced s' = Traced s @ [ray]
           \<and> length (Points (LidarMeasurement s'))
               = length (Points (LidarMeasurement s)) + BlockingHits h [ray]"
proof -
  obtain r s1 ray where shot:
      "ShootLaser h Channel (fadd cur (fmul step (float_of_nat i))) s = Inr (r, s1)"
      "Description s1 = Some d" "LaserAngles s1 = LaserAngles s"
      "LidarMeasurement s1 = LidarMeasurement s"
      "Written s1 = Written s" "Logged s1 = Logged s"
      "Traced s1 = Traced s @ [ray]"
      "(r \<noteq> None) = bBlockingHit (LineTraceSingleByChannel h (fst ray) (snd ray))"
    using ShootLaser_effect [OF assms] by blast
  show ?thesis
  proof (cases r)
    case None
    then have "ScanPoint h Channel cur step i s = Inr s1"
      by (simp add: ScanPoint_def Let_def shot(1))
    moreover have "BlockingHits h [ray] = 0"
      using shot(8) None by (simp add: BlockingHits_def case_prod_beta)
    ultimately show ?thesis using shot(2-7)
      by (intro exI [of _ s1] exI [of _ ray]) simp
  next
    case (Some p)
    then have "ScanPoint h Channel cur step i s
                 = Inr (s1\<lparr>LidarMeasurement := WritePoint Channel p (LidarMeasurement s1)\<rparr>)"
      by (simp add: ScanPoint_def Let_def shot(1))
    moreover have "BlockingHits h [ray] = 1"
      using shot(8) Some by (simp add: BlockingHits_def case_prod_beta)
    ultimately show ?thesis using shot(2-7)
      by (intro exI [of _ "s1\<lparr>LidarMeasurement := WritePoint Channel p (LidarMeasurement s1)\<rparr>"]
                exI [of _ ray]) (simp add: WritePoint_def)
  qed
qed

lemma ScanLaser_effect:
  assumes "Channel < length (LaserAngles s)" and "Description s = Some d"
  shows "\<exists>s' rays. ScanLaser h Channel cur step js s = Inr s'
           \<and> Description s' = Some d \<and> LaserAngles s' = LaserAngles s
           \<and> Written s' = Written s \<and> Logged s' = Logged s
           \<and> Traced s' = Traced s @ rays \<and> length rays = length js
           \<and> length (Points (LidarMeasurement s'))
               = length (Points (LidarMeasurement s)) + BlockingHits h rays"
  using assms
proof (induction js arbitrary: s)
  case Nil
  then show ?case by (simp add: BlockingHits_def)
next
  case (Cons i js)
  obtain s1 ray where one: "ScanPoint h Channel cur step i s = Inr s1"
      "Description s1 = Some d" "LaserAngles s1 = LaserAngles s"
      "Written s1 = Written s" "Logged s1 = Logged s" "Traced s1 = Traced s @ [ray]"
      "length (Points (LidarMeasurement s1))
         = length (Points (LidarMeasurement s)) + BlockingHits h [ray]"
    using ScanPoint_effect [OF Cons.prems] by blast
  have "Channel < length (LaserAngles s1)" using Cons.prems(1) one(3) by simp
  from Cons.IH [OF this one(2)]
  obtain s2 rays where rest: "ScanLaser h Channel cur step js s1 = Inr s2"
      "Description s2 = Some d" "LaserAngles s2 = LaserAngles s1"
      "Written s2 = Written s1" "Logged s2 = Logged s1" "Traced s2 = Traced s1 @ rays"
      "length rays = length js"
      "length (Points (LidarMeasurement s2))
         = length (Points (LidarMeasurement s1)) + BlockingHits h rays"
    by blast
  have "ScanLaser h Channel cur step (i # js) s = Inr s2"
    by (simp add: one(1) rest(1))
  moreover have "Traced s2 = Traced s @ (ray # rays)" by (simp add: rest(6) one(6))
  moreover have "length (ray # rays) = length (i # js)" by (simp add: rest(7))
  moreover have "length (Points (LidarMeasurement s2))
         = length (Points (LidarMeasurement s)) + BlockingHits h (ray # rays)"
    using BlockingHits_append [of h "[ray]" rays] by (simp add: rest(8) one(7))
  ultimately show ?case using rest(2-5) one(3-5) by (metis (no_types))
qed

lemma ScanChannels_effect:
  assumes "\<forall>c \<in> set cs. c < length (LaserAngles s)" and "Description s = Some d"
  shows "\<exists>s' rays. ScanChannels h cur step n cs s = Inr s'
           \<and> Description s' = Some d \<and> LaserAngles s' = LaserAngles s
           \<and> Written s' = Written s \<and> Logged s' = Logged s
           \<and> Traced s' = Traced s @ rays \<and> length rays = length cs * n
           \<and> length (Points (LidarMeasurement s'))
               = length (Points (LidarMeasurement s)) + BlockingHits h rays"
  using assms
proof (induction cs arbitrary: s)
  case Nil
  then show ?case by (simp add: BlockingHits_def)
next
  case (Cons c cs)
  have c: "c < length (LaserAngles s)" using Cons.prems(1) by simp
  obtain s1 rays1 where one: "ScanLaser h c cur step [0 ..< n] s = Inr s1"
      "Description s1 = Some d" "LaserAngles s1 = LaserAngles s"
      "Written s1 = Written s" "Logged s1 = Logged s" "Traced s1 = Traced s @ rays1"
      "length rays1 = length [0 ..< n]"
      "length (Points (LidarMeasurement s1))
         = length (Points (LidarMeasurement s)) + BlockingHits h rays1"
    using ScanLaser_effect [OF c Cons.prems(2)] by blast
  have "\<forall>c \<in> set cs. c < length (LaserAngles s1)" using Cons.prems(1) one(3) by simp
  from Cons.IH [OF this one(2)]
  obtain s2 rays where rest: "ScanChannels h cur step n cs s1 = Inr s2"
      "Description s2 = Some d" "LaserAngles s2 = LaserAngles s1"
      "Written s2 = Written s1" "Logged s2 = Logged s1" "Traced s2 = Traced s1 @ rays"
      "length rays = length cs * n"
      "length (Points (LidarMeasurement s2))
         = length (Points (LidarMeasurement s1)) + BlockingHits h rays"
    by blast
  have "ScanChannels h cur step n (c # cs) s = Inr s2"
    by (simp add: one(1) rest(1))
  moreover have "Traced s2 = Traced s @ (rays1 @ rays)" by (simp add: rest(6) one(6))
  moreover have "length (rays1 @ rays) = length (c # cs) * n" by (simp add: rest(7) one(7))
  moreover have "length (Points (LidarMeasurement s2))
         = length (Points (LidarMeasurement s)) + BlockingHits h (rays1 @ rays)"
    by (simp add: rest(8) one(8) BlockingHits_append)
  ultimately show ?case using rest(2-5) one(3-5) by (metis (no_types))
qed

text \<open>
  A tick with a positive budget on a sensor whose table has one angle for each channel:
  \<open>ReadPoints\<close> returns, and the buffer holds one point for each ray of the tick that hit.
\<close>

lemma ReadPoints_sweep:
  assumes "Description s = Some d" and "PointsToScanWithOneLaser d dt = Inr n" and "0 < n"
    and "length (LaserAngles s) = unat (Channels d)"
  shows "\<exists>s2 rays.
           ReadPoints h dt s =
             Inr (s2\<lparr>LidarMeasurement := (LidarMeasurement s2)
                       \<lparr>FrameNumber := GFrameCounter h,
                        HorizontalAngle :=
                          fmod (fadd (HorizontalAngle (LidarMeasurement s))
                                     (fmul (fmul (RotationFrequency d) (Finite 360)) dt))
                               (Finite 360)\<rparr>\<rparr>)
           \<and> Written s2 = Written s \<and> Logged s2 = Logged s
           \<and> Traced s2 = Traced s @ rays \<and> length rays = unat (Channels d) * unat n
           \<and> length (Points (LidarMeasurement s2)) = BlockingHits h rays"
proof -
  define s1 where "s1 = s\<lparr>LidarMeasurement := Reset (Channels d * n) (LidarMeasurement s)\<rparr>"
  define cur where "cur = HorizontalAngle (LidarMeasurement s)"
  define step where "step = fdiv (fmul (fmul (RotationFrequency d) (Finite 360)) dt) (float_of_uint32 n)"
  have "\<forall>c \<in> set [0 ..< unat (Channels d)]. c < length (LaserAngles s1)"
    by (simp add: s1_def assms(4))
  moreover have "Description s1 = Some d" by (simp add: s1_def assms(1))
  ultimately obtain s2 rays where loop:
      "ScanChannels h cur step (unat n) [0 ..< unat (Channels d)] s1 = Inr s2"
      "Written s2 = Written s1" "Logged s2 = Logged s1"
      "Traced s2 = Traced s1 @ rays" "length rays = length [0 ..< unat (Channels d)] * unat n"
      "length (Points (LidarMeasurement s2))
         = length (Points (LidarMeasurement s1)) + BlockingHits h rays"
    using ScanChannels_effect [of "[0 ..< unat (Channels d)]" s1 d h cur step "unat n"] by blast
  have n0: "\<not> n \<le> 0" using assms(3) by (simp add: word_greater_zero_iff)
  have "ReadPoints h dt s =
             Inr (s2\<lparr>LidarMeasurement := (LidarMeasurement s2)
                       \<lparr>FrameNumber := GFrameCounter h,
                        HorizontalAngle :=
                          fmod (fadd (HorizontalAngle (LidarMeasurement s))
                                     (fmul (fmul (RotationFrequency d) (Finite 360)) dt))
                               (Finite 360)\<rparr>\<rparr>)"
    using loop(1) n0
    by (simp add: ReadPoints_def assms(1,2,4) Let_def s1_def cur_def step_def)
  moreover have "Written s2 = Written s" "Logged s2 = Logged s" "Traced s2 = Traced s @ rays"
    using loop(2-4) by (simp_all add: s1_def)
  moreover have "length rays = unat (Channels d) * unat n" using loop(5) by simp
  moreover have "length (Points (LidarMeasurement s2)) = BlockingHits h rays"
    using loop(6) by (simp add: s1_def Reset_def)
  ultimately show ?thesis by blast
qed

lemma one_point_per_laser:
  "PointsToScanWithOneLaser (lidar_config 2 40 rf 10 (- 30)) (Finite twentieth) = Inr 1"
  by (simp add: PointsToScanWithOneLaser_def lidar_config_sel float_of_uint32_def
      RoundHalfFromZero_def truncate_def)

lemma no_point_per_laser:
  "PointsToScanWithOneLaser (lidar_config 2 40 rf 10 (- 30)) (Finite 0) = Inr 0"
  by (simp add: PointsToScanWithOneLaser_def lidar_config_sel float_of_uint32_def
      RoundHalfFromZero_def truncate_def)

lemma mod_real_bounds:
  assumes "0 < m"
  shows "0 \<le> mod_real x m" and "mod_real x m < m"
proof -
  have "of_int \<lfloor>x / m\<rfloor> * m \<le> x" using assms by (rule floor_divide_lower)
  then show "0 \<le> mod_real x m" by (simp add: mod_real_def mult.commute)
  have "x < (of_int \<lfloor>x / m\<rfloor> + 1) * m" using assms by (rule floor_divide_upper)
  then show "mod_real x m < m" by (simp add: mod_real_def algebra_simps)
qed

text \<open>
  Claim C5, as the code has it. After a sweep in which the sum the code computes in single
  precision, the current horizontal angle plus \<open>rotationFrequency * 360 * dt\<close>, is finite
  and not negative, the horizontal angle is that sum modulo 360 and lies in \<open>[0, 360)\<close>.
\<close>

theorem ReadPoints_horizontal_angle:
  assumes "Description s = Some d" and "PointsToScanWithOneLaser d dt = Inr n"
    and "0 < n" and "length (LaserAngles s) = unat (Channels d)"
    and "fadd (HorizontalAngle (LidarMeasurement s))
              (fmul (fmul (RotationFrequency d) (Finite 360)) dt) = Finite x"
    and "0 \<le> x"
  shows "\<exists>s'. ReadPoints h dt s = Inr s'
           \<and> HorizontalAngle (LidarMeasurement s') = Finite (mod_real x 360)
           \<and> 0 \<le> mod_real x 360
           \<and> mod_real x 360 < 360"
proof -
  obtain s2 where run: "ReadPoints h dt s =
             Inr (s2\<lparr>LidarMeasurement := (LidarMeasurement s2)
                       \<lparr>FrameNumber := GFrameCounter h,
                        HorizontalAngle :=
                          fmod (fadd (HorizontalAngle (LidarMeasurement s))
                                     (fmul (fmul (RotationFrequency d) (Finite 360)) dt))
                               (Finite 360)\<rparr>\<rparr>)"
    using ReadPoints_sweep [OF assms(1-4)] by blast
  have "HorizontalAngle (LidarMeasurement (projr (ReadPoints h dt s)))
          = Finite (mod_real x 360)"
    using assms(6) by (simp add: run assms(5) mod_real_def truncate_def)
  with run show ?thesis
    using mod_real_bounds [of 360 x] by simp
qed

lemma configured_sel:
  "Description (configured (lidar_config 2 pps rf 10 (- 30))) = Some (lidar_config 2 pps rf 10 (- 30))"
  "LaserAngles (configured (lidar_config 2 pps rf 10 (- 30))) = [Finite 10, Finite (- 30)]"
  "LidarMeasurement (configured (lidar_config 2 pps rf 10 (- 30))) = NewLidarMeasurement 0 2"
  "Traced (configured (lidar_config 2 pps rf 10 (- 30))) = []"
  "Written (configured (lidar_config 2 pps rf 10 (- 30))) = []"
  "Logged (configured (lidar_config 2 pps rf 10 (- 30))) = []"
  by (simp_all add: configured_two unconfigured_def)

text \<open>
  From 350 degrees, one revolution per second and the binary32 number nearest to a twelfth
  of a second: the sweep rounds to 30 degrees and the angle ends at 20 degrees.
\<close>

theorem ReadPoints_horizontal_angle_witness:
  "\<exists>s'. ReadPoints (stub_host False) (Finite twelfth)
            ((configured (lidar_config 2 48 1 10 (- 30)))
               \<lparr>LidarMeasurement := (NewLidarMeasurement 0 2)\<lparr>HorizontalAngle := Finite 350\<rparr>\<rparr>)
          = Inr s'
       \<and> HorizontalAngle (LidarMeasurement s') = Finite 20"
proof -
  have twenty: "mod_real 380 360 = 20"
    by (simp add: mod_real_def)
  have budget: "PointsToScanWithOneLaser (lidar_config 2 48 1 10 (- 30)) (Finite twelfth) = Inr 2"
    by (simp add: PointsToScanWithOneLaser_def lidar_config_sel float_of_uint32_def
        RoundHalfFromZero_def truncate_def)
  from ReadPoints_horizontal_angle
         [of "(configured (lidar_config 2 48 1 10 (- 30)))
               \<lparr>LidarMeasurement := (NewLidarMeasurement 0 2)\<lparr>HorizontalAngle := Finite 350\<rparr>\<rparr>"
             "lidar_config 2 48 1 10 (- 30)" "Finite twelfth" 2 380 "stub_host False"]
  show ?thesis
    by (simp add: configured_sel budget lidar_config_sel twenty)
qed

lemma ReadPoints_angle:
  assumes "Description s = Some d" and "PointsToScanWithOneLaser d dt = Inr n"
    and "0 < n" and "length (LaserAngles s) = unat (Channels d)"
  shows "\<not> isl (ReadPoints h dt s)"
    and "HorizontalAngle (LidarMeasurement (projr (ReadPoints h dt s)))
         = fmod (fadd (HorizontalAngle (LidarMeasurement s))
                      (fmul (fmul (RotationFrequency d) (Finite 360)) dt))
                (Finite 360)"
proof -
  obtain s2 where run: "ReadPoints h dt s =
             Inr (s2\<lparr>LidarMeasurement := (LidarMeasurement s2)
                       \<lparr>FrameNumber := GFrameCounter h,
                        HorizontalAngle :=
                          fmod (fadd (HorizontalAngle (LidarMeasurement s))
                                     (fmul (fmul (RotationFrequency d) (Finite 360)) dt))
                               (Finite 360)\<rparr>\<rparr>)"
    using ReadPoints_sweep [OF assms] by blast
  show "\<not> isl (ReadPoints h dt s)" by (simp add: run)
  show "HorizontalAngle (LidarMeasurement (projr (ReadPoints h dt s)))
         = fmod (fadd (HorizontalAngle (LidarMeasurement s))
                      (fmul (fmul (RotationFrequency d) (Finite 360)) dt))
                (Finite 360)"
    by (simp add: run)
qed

lemma thirty_three_points_per_laser:
  "PointsToScanWithOneLaser (lidar_config 2 4000 rf 10 (- 30)) (Finite sixtieth) = Inr 33"
  by (simp add: PointsToScanWithOneLaser_def lidar_config_sel float_of_uint32_def
      RoundHalfFromZero_def truncate_def)

lemma round32_sweep_overflow: "round32 (2 ^ 127 * 360) = PInf"
  by (simp add: round32_def nearest_def quantum_def binade_def binade_up.simps round_half_even_def)

text \<open>
  Claim C5, as stated, fails in three ways. For a rotation frequency below zero: from 0
  degrees, a sweep of -180 degrees ends at -180 degrees, the remainder \<open>std::fmod\<close>
  gives, which is not in \<open>[0, 360)\<close>. Under rounding: with 10 revolutions per second
  and the binary32 number nearest to a sixtieth of a second the code's product rounds to
  15728641 / 262144 degrees, which the angle then is, while
  \<open>rotationFrequency * 360 * dt\<close> modulo 360 is 2013266025 / 33554432. And by overflow:
  with a rotation frequency of \<open>2 ^ 127\<close>, a binary32 number, the product with 360 is
  infinite and the angle ends as NaN.
\<close>

theorem ReadPoints_angle_negative_or_rounded:
  "\<not> isl (ReadPoints (stub_host False) (Finite twentieth)
            (configured (lidar_config 2 40 (- 10) 10 (- 30))))
   \<and> HorizontalAngle (LidarMeasurement (configured (lidar_config 2 40 (- 10) 10 (- 30)))) = Finite 0
   \<and> HorizontalAngle (LidarMeasurement (projr
        (ReadPoints (stub_host False) (Finite twentieth)
           (configured (lidar_config 2 40 (- 10) 10 (- 30)))))) = Finite (- 180)
   \<and> fless (Finite (- 180)) (Finite 0)
   \<and> \<not> isl (ReadPoints (stub_host False) (Finite sixtieth)
            (configured (lidar_config 2 4000 10 10 (- 30))))
   \<and> HorizontalAngle (LidarMeasurement (configured (lidar_config 2 4000 10 10 (- 30)))) = Finite 0
   \<and> HorizontalAngle (LidarMeasurement (projr
        (ReadPoints (stub_host False) (Finite sixtieth)
           (configured (lidar_config 2 4000 10 10 (- 30)))))) = Finite (15728641 / 262144)
   \<and> mod_real (0 + 10 * 360 * sixtieth) 360 = 2013266025 / 33554432
   \<and> (15728641 / 262144 :: real) \<noteq> 2013266025 / 33554432
   \<and> representable (2 ^ 127)
   \<and> \<not> isl (ReadPoints (stub_host False) (Finite twentieth)
            (configured (lidar_config 2 40 (2 ^ 127) 10 (- 30))))
   \<and> HorizontalAngle (LidarMeasurement (projr
        (ReadPoints (stub_host False) (Finite twentieth)
           (configured (lidar_config 2 40 (2 ^ 127) 10 (- 30)))))) = NaN"
proof -
  have t: "truncate (- (1 / 2)) = 0"
    by (simp add: truncate_def ceiling_def)
  have tw: "0 < twentieth" by (simp add: twentieth_def)
  note c = ReadPoints_angle [where s = "configured (lidar_config 2 40 (2 ^ 127) 10 (- 30))"
        and d = "lidar_config 2 40 (2 ^ 127) 10 (- 30)" and dt = "Finite twentieth" and n = 1
        and h = "stub_host False"]
  have big: "representable (2 ^ 127)"
    by (simp add: representable_def round32_def nearest_def quantum_def binade_def
        binade_up.simps round_half_even_def)
  have over: "\<not> isl (ReadPoints (stub_host False) (Finite twentieth)
            (configured (lidar_config 2 40 (2 ^ 127) 10 (- 30))))"
    by (rule c) (simp_all add: configured_sel one_point_per_laser lidar_config_sel)
  have nan: "HorizontalAngle (LidarMeasurement (projr
        (ReadPoints (stub_host False) (Finite twentieth)
           (configured (lidar_config 2 40 (2 ^ 127) 10 (- 30)))))) = NaN"
    using round32_sweep_overflow tw
    by (subst c) (simp_all add: configured_sel one_point_per_laser lidar_config_sel
        NewLidarMeasurement_def signed_inf_def)
  note a = ReadPoints_angle [where s = "configured (lidar_config 2 40 (- 10) 10 (- 30))"
        and d = "lidar_config 2 40 (- 10) 10 (- 30)" and dt = "Finite twentieth" and n = 1
        and h = "stub_host False"]
  note b = ReadPoints_angle [where s = "configured (lidar_config 2 4000 10 10 (- 30))"
        and d = "lidar_config 2 4000 10 10 (- 30)" and dt = "Finite sixtieth" and n = 33
        and h = "stub_host False"]
  have "\<not> isl (ReadPoints (stub_host False) (Finite twentieth)
            (configured (lidar_config 2 40 (- 10) 10 (- 30))))"
    by (rule a) (simp_all add: configured_sel one_point_per_laser lidar_config_sel)
  moreover have "HorizontalAngle (LidarMeasurement (projr
        (ReadPoints (stub_host False) (Finite twentieth)
           (configured (lidar_config 2 40 (- 10) 10 (- 30)))))) = Finite (- 180)"
    using t by (subst a) (simp_all add: configured_sel one_point_per_laser lidar_config_sel
        NewLidarMeasurement_def)
  moreover have "\<not> isl (ReadPoints (stub_host False) (Finite sixtieth)
            (configured (lidar_config 2 4000 10 10 (- 30))))"
    by (rule b) (simp_all add: configured_sel thirty_three_points_per_laser lidar_config_sel)
  moreover have "HorizontalAngle (LidarMeasurement (projr
        (ReadPoints (stub_host False) (Finite sixtieth)
           (configured (lidar_config 2 4000 10 10 (- 30)))))) = Finite (15728641 / 262144)"
    by (subst b) (simp_all add: configured_sel thirty_three_points_per_laser lidar_config_sel
        NewLidarMeasurement_def truncate_def)
  moreover have "mod_real (0 + 10 * 360 * sixtieth) 360 = 2013266025 / 33554432"
    by (simp add: mod_real_def sixtieth_def)
  ultimately show ?thesis
    using big over nan by (simp only: simp_thms) (simp add: configured_sel NewLidarMeasurement_def)
qed

text \<open>
  Claim C6. A sweep traces \<open>channels * pointsPerLaser\<close> rays; the buffer then holds as
  many points as rays of the sweep have hit, a ray that misses adds none, and so the
  buffer holds at most \<open>channels * pointsPerLaser\<close> points.
\<close>

theorem ReadPoints_buffer_bound:
  assumes "Description s = Some d" and "PointsToScanWithOneLaser d dt = Inr n"
    and "0 < n" and "length (LaserAngles s) = unat (Channels d)"
  shows "\<exists>s' rays. ReadPoints h dt s = Inr s'
           \<and> Traced s' = Traced s @ rays
           \<and> length rays = unat (Channels d) * unat n
           \<and> length (Points (LidarMeasurement s')) = BlockingHits h rays
           \<and> length (Points (LidarMeasurement s')) \<le> unat (Channels d) * unat n"
proof -
  obtain s2 rays where run: "ReadPoints h dt s =
             Inr (s2\<lparr>LidarMeasurement := (LidarMeasurement s2)
                       \<lparr>FrameNumber := GFrameCounter h,
                        HorizontalAngle :=
                          fmod (fadd (HorizontalAngle (LidarMeasurement s))
                                     (fmul (fmul (RotationFrequency d) (Finite 360)) dt))
                               (Finite 360)\<rparr>\<rparr>)"
      "Traced s2 = Traced s @ rays" "length rays = unat (Channels d) * unat n"
      "length (Points (LidarMeasurement s2)) = BlockingHits h rays"
    using ReadPoints_sweep [OF assms] by blast
  define s' where "s' = projr (ReadPoints h dt s)"
  have "BlockingHits h rays \<le> unat (Channels d) * unat n"
    using BlockingHits_le [of h rays] run(3) by simp
  moreover have "ReadPoints h dt s = Inr s'" by (simp add: s'_def run(1))
  moreover have "Traced s' = Traced s @ rays" by (simp add: s'_def run(1,2))
  moreover have "length (Points (LidarMeasurement s')) = BlockingHits h rays"
    by (simp add: s'_def run(1,4))
  ultimately show ?thesis using run(3) by auto
qed

text \<open>In the world where every ray misses, two rays are traced and the buffer is empty.\<close>

theorem ReadPoints_buffer_bound_witness:
  "\<exists>s' rays. ReadPoints (stub_host False) (Finite twentieth)
                 (configured (lidar_config 2 40 10 10 (- 30))) = Inr s'
       \<and> Traced s' = rays \<and> length rays = 2
       \<and> Points (LidarMeasurement s') = []"
  using ReadPoints_buffer_bound
          [of "configured (lidar_config 2 40 10 10 (- 30))" "lidar_config 2 40 10 10 (- 30)"
              "Finite twentieth" 1 "stub_host False"]
  by (auto simp add: configured_sel one_point_per_laser lidar_config_sel BlockingHits_def stub_host_def)

section \<open>What the sink receives\<close>

lemma ReadPoints_forgets_points:
  assumes "Description s = Some d" and "PointsToScanWithOneLaser d dt = Inr n" and "0 < n"
  shows "ReadPoints h dt (s\<lparr>LidarMeasurement := (LidarMeasurement s)\<lparr>Points := ps\<rparr>\<rparr>)
           = ReadPoints h dt s"
proof -
  have "\<not> n \<le> 0" using assms(3) by (simp add: word_greater_zero_iff)
  then show ?thesis
    by (simp add: ReadPoints_def assms(1,2) Let_def Reset_def)
qed

text \<open>
  Claim C9, as the code has it. On a tick with a positive budget the buffer is emptied
  before the sweep: the result of the tick does not depend on the points buffered before,
  the buffer at the end holds one point for each ray of this tick that hit, and the
  measurement with this buffer is what is written to the sink.
\<close>

theorem Tick_writes_points_of_this_tick:
  assumes "Description s = Some d" and "PointsToScanWithOneLaser d dt = Inr n"
    and "0 < n" and "length (LaserAngles s) = unat (Channels d)"
  shows "\<exists>s' rays. Tick h dt s = Inr s'
           \<and> Tick h dt (s\<lparr>LidarMeasurement := (LidarMeasurement s)\<lparr>Points := ps\<rparr>\<rparr>) = Inr s'
           \<and> Written s' = Written s @ [LidarMeasurement s']
           \<and> Traced s' = Traced s @ rays
           \<and> length (Points (LidarMeasurement s')) = BlockingHits h rays"
proof -
  obtain s2 rays where run: "ReadPoints h dt s =
             Inr (s2\<lparr>LidarMeasurement := (LidarMeasurement s2)
                       \<lparr>FrameNumber := GFrameCounter h,
                        HorizontalAngle :=
                          fmod (fadd (HorizontalAngle (LidarMeasurement s))
                                     (fmul (fmul (RotationFrequency d) (Finite 360)) dt))
                               (Finite 360)\<rparr>\<rparr>)"
      "Written s2 = Written s" "Traced s2 = Traced s @ rays"
      "length (Points (LidarMeasurement s2)) = BlockingHits h rays"
    using ReadPoints_sweep [OF assms] by blast
  define s' where "s' = projr (Tick h dt s)"
  have "Tick h dt s = Inr s'" by (simp add: s'_def Tick_def run(1))
  moreover have "Tick h dt (s\<lparr>LidarMeasurement := (LidarMeasurement s)\<lparr>Points := ps\<rparr>\<rparr>) = Inr s'"
    by (simp add: s'_def Tick_def ReadPoints_forgets_points [OF assms(1-3)] run(1))
  moreover have "Written s' = Written s @ [LidarMeasurement s']"
    by (simp add: s'_def Tick_def run(1,2) GetView_def)
  moreover have "Traced s' = Traced s @ rays" by (simp add: s'_def Tick_def run(1,3))
  moreover have "length (Points (LidarMeasurement s')) = BlockingHits h rays"
    by (simp add: s'_def Tick_def run(1,4))
  ultimately show ?thesis by blast
qed

text \<open>
  A sensor with one point buffered, in the world where every ray misses: the measurement
  written to the sink has no point.
\<close>

theorem Tick_writes_points_of_this_tick_witness:
  "\<exists>s'. Tick (stub_host False) (Finite twentieth)
            ((configured (lidar_config 2 40 10 10 (- 30)))\<lparr>LidarMeasurement := swept\<rparr>) = Inr s'
       \<and> Written s' = [LidarMeasurement s']
       \<and> Points (LidarMeasurement s') = []"
  using Tick_writes_points_of_this_tick
          [of "(configured (lidar_config 2 40 10 10 (- 30)))\<lparr>LidarMeasurement := swept\<rparr>"
              "lidar_config 2 40 10 10 (- 30)" "Finite twentieth" 1 "stub_host False"]
  by (auto simp add: configured_sel one_point_per_laser lidar_config_sel BlockingHits_def stub_host_def)

text \<open>A tick with budget zero leaves \<open>ReadPoints\<close> before the buffer is emptied.\<close>

lemma ReadPoints_skip:
  assumes "Description s = Some d" and "PointsToScanWithOneLaser d dt = Inr n" and "n \<le> 0"
  shows "ReadPoints h dt s = Inr (s\<lparr>Logged := Logged s @ [NoPointsWarning h]\<rparr>)"
  using assms by (simp add: ReadPoints_def)

lemma first_tick:
  "Tick (stub_host True) (Finite twentieth) (configured (lidar_config 2 40 10 10 (- 30)))
     = Inr ((configured (lidar_config 2 40 10 10 (- 30)))
         \<lparr>Traced := [(origin, \<lparr>X = Finite 5000, Y = Finite 0, Z = Finite 0\<rparr>),
                     (origin, \<lparr>X = Finite 5000, Y = Finite 0, Z = Finite 0\<rparr>)],
          LidarMeasurement :=
            \<lparr>SensorId = 0, NumChannels = 2, HorizontalAngle = Finite 180, FrameNumber = 7,
             Points = [\<lparr>X4 = Finite (- 5000), Y4 = Finite 0, Z4 = Finite 0, W4 = Label ''Vehicle''\<rparr>,
                       \<lparr>X4 = Finite (- 5000), Y4 = Finite 0, Z4 = Finite 0, W4 = Label ''Vehicle''\<rparr>]\<rparr>,
          Written :=
            [\<lparr>SensorId = 0, NumChannels = 2, HorizontalAngle = Finite 180, FrameNumber = 7,
             Points = [\<lparr>X4 = Finite (- 5000), Y4 = Finite 0, Z4 = Finite 0, W4 = Label ''Vehicle''\<rparr>,
                       \<lparr>X4 = Finite (- 5000), Y4 = Finite 0, Z4 = Finite 0, W4 = Label ''Vehicle''\<rparr>]\<rparr>]\<rparr>)"
  by (simp add: Tick_def ReadPoints_def configured_sel one_point_per_laser lidar_config_sel Let_def
      upt_small ScanPoint_def ShootLaser_def Reset_def WritePoint_def GetView_def
      NewLidarMeasurement_def HitTag_def vadd_def vscale_def vsub_def fsub_def
      float_of_uint32_def float_of_nat_def truncate_def stub_host_def origin_def level_def
      configured_two unconfigured_def)

text \<open>
  Claim C9, as stated, fails on a tick where no scanning occurs. After a first tick with
  two hits, a second tick of duration zero has budget zero and traces no ray, and the
  measurement it writes to the sink holds the two points of the first tick, which the
  sensor has kept.
\<close>

theorem Tick_resends_previous_points:
  "PointsToScanWithOneLaser (lidar_config 2 40 10 10 (- 30)) (Finite 0) = Inr 0
   \<and> \<not> isl (Tick (stub_host False) (Finite 0) after_first_tick)
   \<and> Traced (projr (Tick (stub_host False) (Finite 0) after_first_tick)) = Traced after_first_tick
   \<and> Points (last (Written (projr (Tick (stub_host False) (Finite 0) after_first_tick))))
       = [\<lparr>X4 = Finite (- 5000), Y4 = Finite 0, Z4 = Finite 0, W4 = Label ''Vehicle''\<rparr>,
          \<lparr>X4 = Finite (- 5000), Y4 = Finite 0, Z4 = Finite 0, W4 = Label ''Vehicle''\<rparr>]
   \<and> Points (LidarMeasurement after_first_tick)
       = [\<lparr>X4 = Finite (- 5000), Y4 = Finite 0, Z4 = Finite 0, W4 = Label ''Vehicle''\<rparr>,
          \<lparr>X4 = Finite (- 5000), Y4 = Finite 0, Z4 = Finite 0, W4 = Label ''Vehicle''\<rparr>]"
proof -
  have held: "Description after_first_tick = Some (lidar_config 2 40 10 10 (- 30))"
    by (simp add: after_first_tick_def first_tick configured_sel)
  have "ReadPoints (stub_host False) (Finite 0) after_first_tick
          = Inr (after_first_tick\<lparr>Logged := Logged after_first_tick @ [NoPointsWarning (stub_host False)]\<rparr>)"
    using ReadPoints_skip [OF held no_point_per_laser] by simp
  then have "Tick (stub_host False) (Finite 0) after_first_tick
          = Inr (after_first_tick
                  \<lparr>Logged := Logged after_first_tick @ [NoPointsWarning (stub_host False)],
                   Written := Written after_first_tick @ [LidarMeasurement after_first_tick]\<rparr>)"
    by (simp add: Tick_def GetView_def)
  then show ?thesis
    by (simp add: no_point_per_laser) (simp add: after_first_tick_def first_tick)
qed

end
